theory Spec2Isabelle
  imports Main "HOL-Library.Sublist"
begin

section \<open>Python values and exceptions\<close>

text \<open>
  The dynamically typed values that reach the modelled code: call arguments, request
  bodies, responses of the transport, line numbers. A named tuple keeps its field names
  in order; an object is a bag of attributes.
\<close>

datatype pyval =
    PNone
  | PBool bool
  | PInt int
  | PStr string
  | PList "pyval list"
  | PTuple "pyval list"
  | PNamedTuple "(string \<times> pyval) list"
  | PObject "(string \<times> pyval) list"
  | PDict "(string \<times> pyval) list"

text \<open>
  Exceptions as values. \<open>TransportError\<close> stands for the transport module's
  \<open>TransportError\<close> class and its subclasses; its argument is the
  \<open>status_code\<close> attribute, \<open>None\<close> when the class has no such attribute.
  \<open>OtherException\<close> is any other subclass of \<open>Exception\<close> than those named
  here.
\<close>

datatype exn =
    TransportError "pyval option"
  | AttributeError
  | ValueError
  | TypeError
  | StopIteration
  | RuntimeError
  | OtherException string
  | GeneratorExit

text \<open>\<open>isinstance(v, int)\<close>: \<open>bool\<close> is a subclass of \<open>int\<close>.\<close>

fun is_int :: "pyval \<Rightarrow> bool" where
  "is_int (PInt n) = True"
| "is_int (PBool b) = True"
| "is_int v = False"

text \<open>The integer an \<open>int\<close> instance compares as.\<close>

fun int_value :: "pyval \<Rightarrow> int" where
  "int_value (PInt n) = n"
| "int_value (PBool b) = (if b then 1 else 0)"
| "int_value v = 0"

section \<open>CI visibility: source file information\<close>

text \<open>
  \<open>ddtrace/ext/ci_visibility/_ci_visibility_base.py\<close>, class
  \<open>CISourceFileInfoBase\<close>. A \<open>pathlib.Path\<close> is its parts and whether it has a
  root; the constructor's \<open>path\<close> argument may be any object.
\<close>

record posix_path =
  rooted :: bool
  parts :: "string list"

datatype path_arg = PathObj posix_path | NotPath pyval

record CISourceFileInfoBase =
  path :: path_arg
  start_line :: pyval
  end_line :: pyval

definition is_absolute :: "posix_path \<Rightarrow> bool" where
  "is_absolute p = rooted p"

text \<open>
  \<open>Path.absolute()\<close> prepends the current working directory, whose parts are
  \<open>cwd\<close>; the working directory of a process is itself rooted.
\<close>

definition absolute :: "string list \<Rightarrow> posix_path \<Rightarrow> posix_path" where
  "absolute cwd p = \<lparr>rooted = True, parts = cwd @ parts p\<rparr>"

definition check_path ::
  "string list \<Rightarrow> CISourceFileInfoBase \<Rightarrow> exn + CISourceFileInfoBase" where
  "check_path cwd self =
     (case path self of
        NotPath v \<Rightarrow> Inl ValueError
      | PathObj p \<Rightarrow>
          if \<not> is_absolute p then Inr (self\<lparr>path := PathObj (absolute cwd p)\<rparr>)
          else Inr self)"

definition check_line_number :: "pyval \<Rightarrow> exn + unit" where
  "check_line_number line_number =
     (if line_number = PNone then Inr ()
      else if \<not> is_int line_number then Inl ValueError
      else if int_value line_number < 1 then Inl ValueError
      else Inr ())"

definition check_line_numbers :: "CISourceFileInfoBase \<Rightarrow> exn + unit" where
  "check_line_numbers self =
     (case check_line_number (start_line self) of
        Inl e \<Rightarrow> Inl e
      | Inr u \<Rightarrow>
         (case check_line_number (end_line self) of
            Inl e \<Rightarrow> Inl e
          | Inr u \<Rightarrow>
             if start_line self \<noteq> PNone \<and> end_line self \<noteq> PNone
                \<and> int_value (start_line self) > int_value (end_line self)
             then Inl ValueError
             else if start_line self = PNone \<and> end_line self \<noteq> PNone
             then Inl ValueError
             else Inr ()))"

text \<open>
  \<open>__post_init__\<close>, run by the dataclass constructor on the freshly built object:
  the constructor returns the object exactly when this returns it.
\<close>

definition post_init ::
  "string list \<Rightarrow> CISourceFileInfoBase \<Rightarrow> exn + CISourceFileInfoBase" where
  "post_init cwd self =
     (case check_path cwd self of
        Inl e \<Rightarrow> Inl e
      | Inr self' \<Rightarrow>
         (case check_line_numbers self' of
            Inl e \<Rightarrow> Inl e
          | Inr u \<Rightarrow> Inr self'))"

text \<open>The conditions of the claim, on a line number and on a whole object.\<close>

definition line_ok :: "pyval \<Rightarrow> bool" where
  "line_ok v = (v = PNone \<or> (is_int v \<and> 1 \<le> int_value v))"

definition lines_ok :: "pyval \<Rightarrow> pyval \<Rightarrow> bool" where
  "lines_ok s e =
     (line_ok s \<and> line_ok e \<and> (e \<noteq> PNone \<longrightarrow> s \<noteq> PNone)
      \<and> (s \<noteq> PNone \<and> e \<noteq> PNone \<longrightarrow> int_value s \<le> int_value e))"

definition is_path :: "path_arg \<Rightarrow> bool" where
  "is_path a = (case a of PathObj p \<Rightarrow> True | NotPath v \<Rightarrow> False)"

definition is_absolute_path :: "path_arg \<Rightarrow> bool" where
  "is_absolute_path a = (case a of PathObj p \<Rightarrow> is_absolute p | NotPath v \<Rightarrow> False)"

definition source_file_invariant :: "CISourceFileInfoBase \<Rightarrow> bool" where
  "source_file_invariant info =
     (is_absolute_path (path info) \<and> lines_ok (start_line info) (end_line info))"


section \<open>Elasticsearch integration: collaborators\<close>

text \<open>
  \<open>ddtrace/contrib/internal/elasticsearch/patch.py\<close>. The tracer, the span, the
  configuration, the URL helpers and the wrapping primitives live outside this file.
  Every call the integration makes on one of them is recorded as an event, in program
  order, so that a run of the interceptor is the list of effects it had.
\<close>

type_synonym kwargs = "(string \<times> pyval) list"

text \<open>The tag and metric names the integration reads from its constants modules.\<close>

datatype tag_key =
    COMPONENT
  | SPAN_KIND
  | SPAN_MEASURED_KEY
  | METHOD
  | URL
  | PARAMS
  | TARGET_HOST
  | QUERY_STRING
  | BODY
  | ANALYTICS_SAMPLE_RATE_KEY
  | STATUS_CODE
  | TOOK

datatype event =
    Call "pyval list" kwargs      \<comment> \<open>\<open>func(*args, **kwargs)\<close>\<close>
  | Await                          \<comment> \<open>the adapter awaits what \<open>func\<close> returned\<close>
  | Trace string string string     \<comment> \<open>\<open>pin.tracer.trace(name, service, span_type)\<close> entered\<close>
  | SetTags kwargs                 \<comment> \<open>\<open>span.set_tags\<close>\<close>
  | SetTagStr tag_key pyval        \<comment> \<open>\<open>span.set_tag_str\<close>\<close>
  | SetTag tag_key pyval           \<comment> \<open>\<open>span.set_tag\<close>\<close>
  | SetMetric tag_key int          \<comment> \<open>\<open>span.set_metric\<close>\<close>
  | SetError int                   \<comment> \<open>\<open>span.error = n\<close>\<close>
  | Quantize                       \<comment> \<open>\<open>quantize(span)\<close>\<close>
  | LogDebug                       \<comment> \<open>\<open>log.debug\<close>\<close>
  | Exit "exn option"              \<comment> \<open>the \<open>with\<close> block is left, with the exception in flight: the span is closed\<close>

text \<open>
  The pin of an instance: \<open>enabled()\<close>, its tags, and the sampling priority carried
  by the context of the span its tracer hands out (\<open>None\<close> when none was assigned).
\<close>

record pin =
  enabled :: bool
  tags :: kwargs
  sampling_priority :: "int option"

text \<open>
  The transport instance a call is made on. \<open>pin_of\<close> is \<open>Pin.get_from(instance)\<close>.
  The pools are given by the hosts of their connections; an attribute the instance's
  library version does not have is \<open>None\<close>, and reading it raises
  \<open>AttributeError\<close>.
\<close>

record transport_instance =
  pin_of :: "pin option"
  connection_pool :: "string list option"
  node_pool :: "string list option"
  serializer :: "(pyval \<Rightarrow> exn + string) option"
  serializers :: "(pyval \<Rightarrow> exn + string) option"

text \<open>
  What the module imports: the configuration of the integration, the constants, and the
  helper functions of the standard library and of the tracer.
\<close>

record env =
  integration_name :: string
  ext_service :: "pin \<Rightarrow> string"
  trace_query_string :: bool
  get_analytics_sample_rate :: pyval
  MAX_SPAN_META_VALUE_LEN :: nat
  SpanTypes_ELASTICSEARCH :: string
  SpanKind_CLIENT :: string
  urlparse :: "pyval \<Rightarrow> exn + string \<times> string"
  urlencode :: "pyval \<Rightarrow> exn + string"
  extract_netloc :: "string \<Rightarrow> string"
  int_of_str :: "string \<Rightarrow> int option"

section \<open>Elasticsearch integration: built-in operations\<close>

text \<open>Truth value of an object, as \<open>if x:\<close> tests it.\<close>

fun truthy :: "pyval \<Rightarrow> bool" where
  "truthy PNone = False"
| "truthy (PBool b) = b"
| "truthy (PInt n) = (n \<noteq> 0)"
| "truthy (PStr s) = (s \<noteq> [])"
| "truthy (PList xs) = (xs \<noteq> [])"
| "truthy (PTuple xs) = (xs \<noteq> [])"
| "truthy (PNamedTuple fs) = (fs \<noteq> [])"
| "truthy (PObject fs) = True"
| "truthy (PDict kvs) = (kvs \<noteq> [])"

text \<open>\<open>kwargs.get(name)\<close>.\<close>

definition kwargs_get :: "kwargs \<Rightarrow> string \<Rightarrow> pyval" where
  "kwargs_get kwargs name = (case map_of kwargs name of None \<Rightarrow> PNone | Some v \<Rightarrow> v)"

text \<open>Attribute access on a response object.\<close>

fun getattr :: "pyval \<Rightarrow> string \<Rightarrow> exn + pyval" where
  "getattr (PNamedTuple fs) name =
     (case map_of fs name of None \<Rightarrow> Inl AttributeError | Some v \<Rightarrow> Inr v)"
| "getattr (PObject fs) name =
     (case map_of fs name of None \<Rightarrow> Inl AttributeError | Some v \<Rightarrow> Inr v)"
| "getattr v name = Inl AttributeError"

text \<open>\<open>isinstance(v, tuple)\<close> and the items a tuple unpacks to.\<close>

fun is_tuple :: "pyval \<Rightarrow> bool" where
  "is_tuple (PTuple xs) = True"
| "is_tuple (PNamedTuple fs) = True"
| "is_tuple v = False"

fun tuple_items :: "pyval \<Rightarrow> pyval list" where
  "tuple_items (PTuple xs) = xs"
| "tuple_items (PNamedTuple fs) = map snd fs"
| "tuple_items v = []"

text \<open>\<open>data.get(name)\<close>: only a dict has the method.\<close>

fun data_get :: "pyval \<Rightarrow> string \<Rightarrow> exn + pyval" where
  "data_get (PDict kvs) name =
     Inr (case map_of kvs name of None \<Rightarrow> PNone | Some v \<Rightarrow> v)"
| "data_get v name = Inl AttributeError"

text \<open>\<open>int(v)\<close>; the parsing of a string is the environment's.\<close>

fun py_int :: "env \<Rightarrow> pyval \<Rightarrow> exn + int" where
  "py_int env (PInt n) = Inr n"
| "py_int env (PBool b) = Inr (if b then 1 else 0)"
| "py_int env (PStr s) =
     (case int_of_str env s of None \<Rightarrow> Inl ValueError | Some n \<Rightarrow> Inr n)"
| "py_int env v = Inl TypeError"

text \<open>\<open>"%s" % n\<close> for a length: the decimal digits of \<open>n\<close>.\<close>

definition digit_char :: "nat \<Rightarrow> char" where
  "digit_char d = ''0123456789'' ! d"

fun str_nat :: "nat \<Rightarrow> string" where
  "str_nat n =
     (if n < 10 then [digit_char n] else str_nat (n div 10) @ [digit_char (n mod 10)])"

text \<open>\<open>except Exception\<close> does not catch \<open>GeneratorExit\<close>.\<close>

fun is_Exception :: "exn \<Rightarrow> bool" where
  "is_Exception GeneratorExit = False"
| "is_Exception e = True"

section \<open>Elasticsearch integration: the shared routine\<close>

text \<open>
  \<open>_get_perform_request_coro\<close> returns a generator function. Each of its paths
  reaches exactly one \<open>yield\<close> or raises before it, so a run is two steps: up to the
  \<open>yield\<close> (\<open>next(coro)\<close>) and from the \<open>yield\<close> to the end
  (\<open>coro.send(result)\<close>). A step returns the events it caused and how it ended.
  The value yielded is whatever \<open>func\<close> returns, of type \<open>'y\<close>: the result itself
  under the synchronous adapter, an awaitable under the asynchronous one.
\<close>

text \<open>The three \<open>yield\<close> statements: lines 128, 146 and 206.\<close>

datatype yield_point = AtDisabled | AtDropped | AtDelegate

text \<open>
  Entering the span and the tags set on every traced call (lines 131 to 142).
\<close>

definition open_span :: "env \<Rightarrow> pin \<Rightarrow> event list" where
  "open_span env pin =
     [Trace ''elasticsearch.query'' (ext_service env pin) (SpanTypes_ELASTICSEARCH env)]
     @ (if tags pin \<noteq> [] then [SetTags (tags pin)] else [])
     @ [SetTagStr COMPONENT (PStr (integration_name env)),
        SetTagStr SPAN_KIND (PStr (SpanKind_CLIENT env)),
        SetTag SPAN_MEASURED_KEY PNone]"

text \<open>
  Line 145: the trace is known to be dropped when a sampling priority has been assigned
  and is not positive.
\<close>

definition dropped :: "pin \<Rightarrow> bool" where
  "dropped pin =
     (case sampling_priority pin of None \<Rightarrow> False | Some priority \<Rightarrow> priority \<le> 0)"

text \<open>Line 149, \<open>method, target = args\<close>.\<close>

fun unpack_args :: "pyval list \<Rightarrow> exn + pyval \<times> pyval" where
  "unpack_args [method, target] = Inr (method, target)"
| "unpack_args args = Inl ValueError"

text \<open>Lines 154 to 159: the path, and the query string that will be recorded.\<close>

definition url_and_params :: "env \<Rightarrow> pyval \<Rightarrow> pyval \<Rightarrow> exn + string \<times> string" where
  "url_and_params env target params =
     (case urlparse env target of
        Inl e \<Rightarrow> Inl e
      | Inr (parsed_path, parsed_query) \<Rightarrow>
          if truthy params
          then (case urlencode env params of
                  Inl e \<Rightarrow> Inl e
                | Inr encoded_params \<Rightarrow> Inr (parsed_path, encoded_params))
          else Inr (parsed_path, parsed_query))"

text \<open>Lines 164 to 169: the hosts of the connections, from either pool.\<close>

definition get_connections :: "transport_instance \<Rightarrow> exn + string list" where
  "get_connections instance =
     (case connection_pool instance of
        Some connections \<Rightarrow> Inr connections
      | None \<Rightarrow>
         (case node_pool instance of
            Some connections \<Rightarrow> Inr connections
          | None \<Rightarrow> Inl AttributeError))"

text \<open>Lines 170 to 174: the first connection with a host name is tagged.\<close>

fun target_host_tags :: "env \<Rightarrow> string list \<Rightarrow> event list" where
  "target_host_tags env [] = []"
| "target_host_tags env (host # connections) =
     (if extract_netloc env host \<noteq> []
      then [SetTagStr TARGET_HOST (PStr (extract_netloc env host))]
      else target_host_tags env connections)"

text \<open>
  Lines 180 to 185: \<open>serializer.dumps\<close>, and \<open>serializers.dumps\<close> when that raises
  \<open>AttributeError\<close>.
\<close>

definition dumps_with ::
  "(pyval \<Rightarrow> exn + string) option \<Rightarrow> pyval \<Rightarrow> exn + string" where
  "dumps_with attribute body =
     (case attribute of None \<Rightarrow> Inl AttributeError | Some dumps \<Rightarrow> dumps body)"

definition serialize_body :: "transport_instance \<Rightarrow> pyval \<Rightarrow> exn + string" where
  "serialize_body instance body =
     (case dumps_with (serializer instance) body of
        Inl AttributeError \<Rightarrow> dumps_with (serializers instance) body
      | Inl e \<Rightarrow> Inl e
      | Inr ser_body \<Rightarrow> Inr ser_body)"

text \<open>Lines 191 to 197: the value of the body tag.\<close>

definition body_placeholder :: "nat \<Rightarrow> nat \<Rightarrow> string" where
  "body_placeholder len limit =
     ''<body size '' @ str_nat len @ '' exceeds limit of '' @ str_nat limit @ ''>''"

definition body_tag :: "env \<Rightarrow> string \<Rightarrow> string" where
  "body_tag env ser_body =
     (if length ser_body \<le> MAX_SPAN_META_VALUE_LEN env then ser_body
      else body_placeholder (length ser_body) (MAX_SPAN_META_VALUE_LEN env))"

text \<open>Lines 179 to 197.\<close>

definition body_tags ::
  "env \<Rightarrow> transport_instance \<Rightarrow> pyval \<Rightarrow> pyval \<Rightarrow> event list \<times> (exn + unit)" where
  "body_tags env instance method body =
     (if method = PStr ''GET'' \<or> method = PStr ''POST''
      then (case serialize_body instance body of
              Inl e \<Rightarrow> ([], Inl e)
            | Inr ser_body \<Rightarrow> ([SetTagStr BODY (PStr (body_tag env ser_body))], Inr ()))
      else ([], Inr ()))"

text \<open>
  Lines 149 to 203, everything between the sampling check and the delegated call. The
  events are those that happened before the stage ended or raised.
\<close>

definition request_tags ::
  "env \<Rightarrow> transport_instance \<Rightarrow> pyval list \<Rightarrow> kwargs \<Rightarrow> event list \<times> (exn + unit)" where
  "request_tags env instance args kwargs =
     (case unpack_args args of
        Inl e \<Rightarrow> ([], Inl e)
      | Inr (method, target) \<Rightarrow>
         (case url_and_params env target (kwargs_get kwargs ''params'') of
            Inl e \<Rightarrow> ([], Inl e)
          | Inr (url, encoded_params) \<Rightarrow>
             (case get_connections instance of
                Inl e \<Rightarrow>
                  ([SetTagStr METHOD method, SetTagStr URL (PStr url),
                    SetTagStr PARAMS (PStr encoded_params)], Inl e)
              | Inr connections \<Rightarrow>
                 (case body_tags env instance method (kwargs_get kwargs ''body'') of
                    (body_events, outcome) \<Rightarrow>
                      ([SetTagStr METHOD method, SetTagStr URL (PStr url),
                        SetTagStr PARAMS (PStr encoded_params)]
                       @ target_host_tags env connections
                       @ (if trace_query_string env
                          then [SetTagStr QUERY_STRING (PStr encoded_params)] else [])
                       @ body_events
                       @ (case outcome of
                            Inl e \<Rightarrow> []
                          | Inr u \<Rightarrow>
                              [SetTag ANALYTICS_SAMPLE_RATE_KEY (get_analytics_sample_rate env),
                               Quantize]),
                       outcome)))))"

text \<open>Lines 207 to 210: the handler around the delegated call.\<close>

fun error_tags :: "exn \<Rightarrow> event list" where
  "error_tags (TransportError status_code) =
     [SetTag STATUS_CODE (case status_code of None \<Rightarrow> PInt 500 | Some code \<Rightarrow> code),
      SetError 1]"
| "error_tags e = []"

text \<open>
  An exception that leaves the body of a generator. The underlying function is called
  inside the generator (lines 128, 146 and 206), and so is everything the routine does:
  a \<open>StopIteration\<close> that gets out is replaced by a \<open>RuntimeError\<close>; every
  other exception passes as it is. The \<open>with\<close> block is left before that, with the
  exception as it was raised.
\<close>

fun leave_generator :: "exn \<Rightarrow> exn" where
  "leave_generator StopIteration = RuntimeError"
| "leave_generator e = e"

text \<open>
  \<open>next(coro)\<close>: the events, and either the exception that left the generator or the
  value yielded with the \<open>yield\<close> it is suspended at.
\<close>

definition coro_next ::
  "env \<Rightarrow> (pyval list \<Rightarrow> kwargs \<Rightarrow> exn + 'y) \<Rightarrow> transport_instance \<Rightarrow> pyval list \<Rightarrow> kwargs
     \<Rightarrow> event list \<times> (exn + 'y \<times> yield_point)" where
  "coro_next env func instance args kwargs =
     (case pin_of instance of
        None \<Rightarrow>
         (case func args kwargs of
            Inl e \<Rightarrow> ([Call args kwargs], Inl (leave_generator e))
          | Inr y \<Rightarrow> ([Call args kwargs], Inr (y, AtDisabled)))
      | Some pin \<Rightarrow>
         if \<not> enabled pin then
           (case func args kwargs of
              Inl e \<Rightarrow> ([Call args kwargs], Inl (leave_generator e))
            | Inr y \<Rightarrow> ([Call args kwargs], Inr (y, AtDisabled)))
         else if dropped pin then
           (case func args kwargs of
              Inl e \<Rightarrow>
                (open_span env pin @ [Call args kwargs, Exit (Some e)],
                 Inl (leave_generator e))
            | Inr y \<Rightarrow> (open_span env pin @ [Call args kwargs], Inr (y, AtDropped)))
         else
           (case request_tags env instance args kwargs of
              (request_events, Inl e) \<Rightarrow>
                (open_span env pin @ request_events @ [Exit (Some e)], Inl (leave_generator e))
            | (request_events, Inr u) \<Rightarrow>
               (case func args kwargs of
                  Inl e \<Rightarrow>
                    (open_span env pin @ request_events @ [Call args kwargs]
                     @ error_tags e @ [Exit (Some e)], Inl (leave_generator e))
                | Inr y \<Rightarrow>
                    (open_span env pin @ request_events @ [Call args kwargs],
                     Inr (y, AtDelegate)))))"

text \<open>
  Lines 214 to 225: the value of \<open>status\<close> afterwards (it starts as \<open>None\<close>, line
  198) and \<open>data\<close>, or the exception raised.
\<close>

definition meta_and_body :: "pyval \<Rightarrow> exn + pyval \<times> pyval" where
  "meta_and_body result =
     (case getattr result ''meta'' of
        Inl e \<Rightarrow> Inl e
      | Inr meta \<Rightarrow>
         (case getattr result ''body'' of
            Inl e \<Rightarrow> Inl e
          | Inr data \<Rightarrow>
             (case getattr meta ''status'' of
                Inl e \<Rightarrow> Inl e
              | Inr status \<Rightarrow> Inr (status, data))))"

fun unpack_pair :: "pyval list \<Rightarrow> exn + pyval \<times> pyval" where
  "unpack_pair [status, data] = Inr (status, data)"
| "unpack_pair items = Inl ValueError"

definition status_and_data :: "pyval \<Rightarrow> pyval \<times> (exn + pyval)" where
  "status_and_data result =
     (if is_tuple result then
        (case meta_and_body result of
           Inr (status, data) \<Rightarrow> (status, Inr data)
         | Inl AttributeError \<Rightarrow>
            (case unpack_pair (tuple_items result) of
               Inr (status, data) \<Rightarrow> (status, Inr data)
             | Inl e \<Rightarrow> (PNone, Inl e))
         | Inl e \<Rightarrow> (PNone, Inl e))
      else (PNone, Inr result))"

text \<open>Lines 227 to 229.\<close>

definition took_metric :: "env \<Rightarrow> pyval \<Rightarrow> event list \<times> (exn + unit)" where
  "took_metric env data =
     (case data_get data ''took'' of
        Inl e \<Rightarrow> ([], Inl e)
      | Inr took \<Rightarrow>
          if truthy took
          then (case py_int env took of
                  Inl e \<Rightarrow> ([], Inl e)
                | Inr n \<Rightarrow> ([SetMetric TOOK n], Inr ()))
          else ([], Inr ()))"

text \<open>
  Lines 212 to 234: the soft-failing block and the status tag. The exception returned
  is one that \<open>except Exception\<close> does not catch.
\<close>

definition response_tags :: "env \<Rightarrow> pyval \<Rightarrow> event list \<times> exn option" where
  "response_tags env result =
     (case status_and_data result of
        (status, unpacked) \<Rightarrow>
         (case (case unpacked of
                  Inl e \<Rightarrow> ([], Inl e)
                | Inr data \<Rightarrow> took_metric env data) of
            (metric_events, Inr u) \<Rightarrow>
              (metric_events
               @ (if truthy status then [SetTag STATUS_CODE status] else []), None)
          | (metric_events, Inl e) \<Rightarrow>
              if is_Exception e
              then (metric_events @ [LogDebug]
                    @ (if truthy status then [SetTag STATUS_CODE status] else []), None)
              else (metric_events, Some e)))"

text \<open>
  \<open>coro.send(result)\<close> on the generator suspended at a \<open>yield\<close>: the events, and the
  exception that left the generator, \<open>None\<close> standing for the \<open>StopIteration\<close> of a
  generator that returned.
\<close>

fun coro_send :: "env \<Rightarrow> yield_point \<Rightarrow> pyval \<Rightarrow> event list \<times> exn option" where
  "coro_send env AtDisabled result = ([], None)"
| "coro_send env AtDropped result = ([Exit None], None)"
| "coro_send env AtDelegate result =
     (case response_tags env result of
        (response_events, None) \<Rightarrow> (response_events @ [Exit None], None)
      | (response_events, Some e) \<Rightarrow>
          (response_events @ [Exit (Some e)], Some (leave_generator e)))"

text \<open>
  What the runtime does to a generator that is dropped while suspended: it raises
  \<open>GeneratorExit\<close> at the \<open>yield\<close>. The handler of line 207 does not match it; the
  \<open>with\<close> block is left.
\<close>

fun coro_close :: "yield_point \<Rightarrow> event list" where
  "coro_close AtDisabled = []"
| "coro_close AtDropped = [Exit (Some GeneratorExit)]"
| "coro_close AtDelegate = error_tags GeneratorExit @ [Exit (Some GeneratorExit)]"

section \<open>Elasticsearch integration: the two adapters\<close>

text \<open>
  What a wrapped call did: what it returned or raised, its events, and the \<open>yield\<close>
  at which it left the generator suspended, if it did not run it to the end.
\<close>

record call_result =
  outcome :: "exn + pyval"
  events :: "event list"
  suspended :: "yield_point option"

text \<open>\<open>_get_perform_request\<close>, lines 244 to 251.\<close>

definition get_perform_request ::
  "env \<Rightarrow> (pyval list \<Rightarrow> kwargs \<Rightarrow> exn + pyval) \<Rightarrow> transport_instance \<Rightarrow> pyval list
     \<Rightarrow> kwargs \<Rightarrow> call_result" where
  "get_perform_request env func instance args kwargs =
     (case coro_next env func instance args kwargs of
        (next_events, Inl e) \<Rightarrow>
          \<lparr>outcome = Inl e, events = next_events, suspended = None\<rparr>
      | (next_events, Inr (result, point)) \<Rightarrow>
         (case coro_send env point result of
            (send_events, None) \<Rightarrow>
              \<lparr>outcome = Inr result, events = next_events @ send_events, suspended = None\<rparr>
          | (send_events, Some e) \<Rightarrow>
              \<lparr>outcome = Inl e, events = next_events @ send_events, suspended = None\<rparr>))"

text \<open>
  An awaitable is how its iterator ends: with a value, with an exception, or with a bare
  \<open>StopIteration\<close>, which is how an iterator returns \<open>None\<close>. Awaiting it
  therefore never raises \<open>StopIteration\<close>.
\<close>

datatype awaitable = Awaitable "exn + pyval"

fun await :: "awaitable \<Rightarrow> exn + pyval" where
  "await (Awaitable (Inl StopIteration)) = Inr PNone"
| "await (Awaitable result) = result"

text \<open>
  \<open>_get_perform_request_async\<close>, lines 259 to 266: the awaitable yielded by the
  generator is awaited by the adapter, outside the generator; an exception it raises
  leaves the adapter at line 261.
\<close>

definition get_perform_request_async ::
  "env \<Rightarrow> (pyval list \<Rightarrow> kwargs \<Rightarrow> exn + awaitable) \<Rightarrow> transport_instance \<Rightarrow> pyval list
     \<Rightarrow> kwargs \<Rightarrow> call_result" where
  "get_perform_request_async env func instance args kwargs =
     (case coro_next env func instance args kwargs of
        (next_events, Inl e) \<Rightarrow>
          \<lparr>outcome = Inl e, events = next_events, suspended = None\<rparr>
      | (next_events, Inr (awaited, point)) \<Rightarrow>
         (case await awaited of
            Inl e \<Rightarrow>
              \<lparr>outcome = Inl e, events = next_events @ [Await], suspended = Some point\<rparr>
          | Inr result \<Rightarrow>
             (case coro_send env point result of
                (send_events, None) \<Rightarrow>
                  \<lparr>outcome = Inr result, events = next_events @ [Await] @ send_events,
                   suspended = None\<rparr>
              | (send_events, Some e) \<Rightarrow>
                  \<lparr>outcome = Inl e, events = next_events @ [Await] @ send_events,
                   suspended = None\<rparr>)))"

text \<open>
  An outcome of the underlying function as the caller of the wrapper sees it, the function
  having been called inside the generator.
\<close>

definition through_generator :: "exn + 'a \<Rightarrow> exn + 'a" where
  "through_generator result =
     (case result of Inl e \<Rightarrow> Inl (leave_generator e) | Inr v \<Rightarrow> Inr v)"

text \<open>The same calls without the wrapper.\<close>

definition unwrapped ::
  "(pyval list \<Rightarrow> kwargs \<Rightarrow> exn + pyval) \<Rightarrow> pyval list \<Rightarrow> kwargs \<Rightarrow> exn + pyval" where
  "unwrapped func args kwargs = func args kwargs"

definition unwrapped_async ::
  "(pyval list \<Rightarrow> kwargs \<Rightarrow> exn + awaitable) \<Rightarrow> pyval list \<Rightarrow> kwargs \<Rightarrow> exn + pyval" where
  "unwrapped_async func args kwargs =
     (case func args kwargs of Inl e \<Rightarrow> Inl e | Inr awaited \<Rightarrow> await awaited)"

section \<open>Elasticsearch integration: patching\<close>

text \<open>
  A transport module has a \<open>_datadog_patch\<close> attribute or not, and a
  \<open>Transport\<close> and an \<open>AsyncTransport\<close> class or not. Of a class the model keeps
  the wrappers installed around its \<open>perform_request\<close>, outermost first, and whether
  a pin was put onto it.
\<close>

datatype wrapper = SyncWrapper | AsyncWrapper

record transport_class =
  perform_request :: "wrapper list"
  pinned :: bool

record transport_module =
  datadog_patch :: "bool option"
  Transport :: "transport_class option"
  AsyncTransport :: "transport_class option"

datatype classname = TransportName | AsyncTransportName

text \<open>
  Modelled from the spec: the wrap and unwrap primitive (\<open>wrap_function_wrapper\<close>
  of the vendored wrapt and \<open>unwrap\<close> of the internal utilities) is not in this
  file. The spec has it install a replacement implementation for a named method and
  later restore the original: wrapping puts a wrapper around the method, unwrapping
  takes the outermost wrapper off.
\<close>

definition wrap_function_wrapper :: "transport_class \<Rightarrow> wrapper \<Rightarrow> transport_class" where
  "wrap_function_wrapper cls wrapper = cls\<lparr>perform_request := wrapper # perform_request cls\<rparr>"

definition unwrap :: "transport_class \<Rightarrow> transport_class" where
  "unwrap cls =
     (case perform_request cls of
        [] \<Rightarrow> cls
      | wrapper # wrapped \<Rightarrow> cls\<lparr>perform_request := wrapped\<rparr>)"

text \<open>\<open>Pin().onto(cls)\<close>.\<close>

definition pin_onto :: "transport_class \<Rightarrow> transport_class" where
  "pin_onto cls = cls\<lparr>pinned := True\<rparr>"

text \<open>\<open>getattr(transport, "_datadog_patch", False)\<close>.\<close>

definition patch_flag :: "transport_module \<Rightarrow> bool" where
  "patch_flag transport = (case datadog_patch transport of None \<Rightarrow> False | Some flag \<Rightarrow> flag)"

text \<open>\<open>_patch\<close>, lines 94 to 104.\<close>

definition patch_transport :: "transport_module \<Rightarrow> transport_module" where
  "patch_transport transport =
     (if patch_flag transport then transport
      else
        (let transport1 =
               (case Transport transport of
                  None \<Rightarrow> transport
                | Some cls \<Rightarrow>
                    transport\<lparr>datadog_patch := Some True,
                              Transport := Some (pin_onto (wrap_function_wrapper cls SyncWrapper))\<rparr>)
         in (case AsyncTransport transport1 of
               None \<Rightarrow> transport1
             | Some cls \<Rightarrow>
                 transport1\<lparr>datadog_patch := Some True,
                            AsyncTransport :=
                              Some (pin_onto (wrap_function_wrapper cls AsyncWrapper))\<rparr>)))"

text \<open>\<open>getattr(transport, classname)\<close> and the class object updated in place.\<close>

fun getattr_class :: "transport_module \<Rightarrow> classname \<Rightarrow> exn + transport_class" where
  "getattr_class transport TransportName =
     (case Transport transport of None \<Rightarrow> Inl AttributeError | Some cls \<Rightarrow> Inr cls)"
| "getattr_class transport AsyncTransportName =
     (case AsyncTransport transport of None \<Rightarrow> Inl AttributeError | Some cls \<Rightarrow> Inr cls)"

fun update_class :: "transport_module \<Rightarrow> classname \<Rightarrow> transport_class \<Rightarrow> transport_module" where
  "update_class transport TransportName cls = transport\<lparr>Transport := Some cls\<rparr>"
| "update_class transport AsyncTransportName cls = transport\<lparr>AsyncTransport := Some cls\<rparr>"

text \<open>The loop of \<open>_unpatch\<close>, lines 115 to 121.\<close>

fun unpatch_classes :: "classname list \<Rightarrow> transport_module \<Rightarrow> transport_module" where
  "unpatch_classes [] transport = transport"
| "unpatch_classes (classname # classnames) transport =
     (case getattr_class transport classname of
        Inl e \<Rightarrow> unpatch_classes classnames transport
      | Inr cls \<Rightarrow>
          unpatch_classes classnames
            (update_class (transport\<lparr>datadog_patch := Some False\<rparr>) classname (unwrap cls)))"

text \<open>\<open>_unpatch\<close>, lines 112 to 121.\<close>

definition unpatch_transport :: "transport_module \<Rightarrow> transport_module" where
  "unpatch_transport transport =
     (if \<not> patch_flag transport then transport
      else unpatch_classes [TransportName, AsyncTransportName] transport)"

section \<open>Reading a run\<close>

text \<open>The calls of the underlying function, and the closings of the span, in a run.\<close>

fun is_call :: "event \<Rightarrow> bool" where
  "is_call (Call args kwargs) = True"
| "is_call e = False"

fun is_exit :: "event \<Rightarrow> bool" where
  "is_exit (Exit e) = True"
| "is_exit e = False"

fun is_trace :: "event \<Rightarrow> bool" where
  "is_trace (Trace name service span_type) = True"
| "is_trace e = False"

definition calls :: "event list \<Rightarrow> event list" where
  "calls evs = filter is_call evs"

definition span_closes :: "event list \<Rightarrow> nat" where
  "span_closes evs = length (filter is_exit evs)"

definition spans_opened :: "event list \<Rightarrow> nat" where
  "spans_opened evs = length (filter is_trace evs)"

text \<open>The values written to a tag with \<open>set_tag_str\<close> or \<open>set_tag\<close>, in order.\<close>

fun tag_str_value :: "tag_key \<Rightarrow> event \<Rightarrow> pyval list" where
  "tag_str_value key (SetTagStr k v) = (if k = key then [v] else [])"
| "tag_str_value key e = []"

fun tag_value :: "tag_key \<Rightarrow> event \<Rightarrow> pyval list" where
  "tag_value key (SetTag k v) = (if k = key then [v] else [])"
| "tag_value key e = []"

definition tag_str_writes :: "tag_key \<Rightarrow> event list \<Rightarrow> pyval list" where
  "tag_str_writes key evs = concat (map (tag_str_value key) evs)"

definition tag_writes :: "tag_key \<Rightarrow> event list \<Rightarrow> pyval list" where
  "tag_writes key evs = concat (map (tag_value key) evs)"

text \<open>The values assigned to the error flag of the span.\<close>

fun error_value :: "event \<Rightarrow> int list" where
  "error_value (SetError n) = [n]"
| "error_value e = []"

definition error_writes :: "event list \<Rightarrow> int list" where
  "error_writes evs = concat (map error_value evs)"

text \<open>
  Whether the instance has an enabled pin (line 127), and whether the call goes through
  the whole routine (lines 127 and 145).
\<close>

definition tracing_disabled :: "transport_instance \<Rightarrow> bool" where
  "tracing_disabled instance =
     (case pin_of instance of None \<Rightarrow> True | Some pin \<Rightarrow> \<not> enabled pin)"

definition fully_instrumented :: "transport_instance \<Rightarrow> bool" where
  "fully_instrumented instance =
     (case pin_of instance of None \<Rightarrow> False | Some pin \<Rightarrow> enabled pin \<and> \<not> dropped pin)"

text \<open>
  Orderings a run may have: the quantizer directly followed by the closing of the span,
  and the underlying call made before the quantizer runs.
\<close>

fun quantize_then_exit :: "event list \<Rightarrow> bool" where
  "quantize_then_exit (Quantize # Exit e # evs) = True"
| "quantize_then_exit (ev # evs) = quantize_then_exit evs"
| "quantize_then_exit [] = False"

fun call_before_quantize :: "event list \<Rightarrow> bool" where
  "call_before_quantize [] = False"
| "call_before_quantize (Call args kwargs # evs) = (Quantize \<in> set evs)"
| "call_before_quantize (Quantize # evs) = False"
| "call_before_quantize (ev # evs) = call_before_quantize evs"

text \<open>
  The kinds of event each stage of the routine causes: opening the span (lines 131 to
  142), deriving the request tags (lines 161 to 203), recording the outcome (lines 208
  to 234).
\<close>

fun is_open_event :: "event \<Rightarrow> bool" where
  "is_open_event (Trace name service span_type) = True"
| "is_open_event (SetTags ts) = True"
| "is_open_event (SetTagStr k v) = (k = COMPONENT \<or> k = SPAN_KIND)"
| "is_open_event (SetTag k v) = (k = SPAN_MEASURED_KEY)"
| "is_open_event ev = False"

fun is_request_event :: "event \<Rightarrow> bool" where
  "is_request_event (SetTagStr k v) =
     (k = METHOD \<or> k = URL \<or> k = PARAMS \<or> k = TARGET_HOST \<or> k = QUERY_STRING \<or> k = BODY)"
| "is_request_event (SetTag k v) = (k = ANALYTICS_SAMPLE_RATE_KEY)"
| "is_request_event Quantize = True"
| "is_request_event ev = False"

fun is_outcome_event :: "event \<Rightarrow> bool" where
  "is_outcome_event (SetTag k v) = (k = STATUS_CODE)"
| "is_outcome_event (SetMetric k n) = (k = TOOK)"
| "is_outcome_event (SetError n) = True"
| "is_outcome_event LogDebug = True"
| "is_outcome_event ev = False"

text \<open>
  What is left of the routine after each \<open>yield\<close>, when the soft-failing block lets
  no exception through.
\<close>

fun after_yield :: "env \<Rightarrow> yield_point \<Rightarrow> pyval \<Rightarrow> event list" where
  "after_yield env AtDisabled result = []"
| "after_yield env AtDropped result = [Exit None]"
| "after_yield env AtDelegate result = fst (response_tags env result) @ [Exit None]"

section \<open>Example calls\<close>

text \<open>
  A concrete environment and instance: small stand-ins for the library functions, a
  client of host 127.0.0.1 with tracing enabled.
\<close>

fun example_urlparse :: "pyval \<Rightarrow> exn + string \<times> string" where
  "example_urlparse (PStr s) =
     Inr (takeWhile (\<lambda>c. c \<noteq> CHR ''?'') s, drop 1 (dropWhile (\<lambda>c. c \<noteq> CHR ''?'') s))"
| "example_urlparse v = Inl AttributeError"

fun example_pair :: "string \<times> pyval \<Rightarrow> string" where
  "example_pair (k, PStr s) = k @ ''='' @ s"
| "example_pair (k, v) = k @ ''=''"

fun example_urlencode :: "pyval \<Rightarrow> exn + string" where
  "example_urlencode (PDict [kv]) = Inr (example_pair kv)"
| "example_urlencode (PDict kvs) = Inr (concat (map (\<lambda>kv. example_pair kv @ ''&'') kvs))"
| "example_urlencode v = Inl TypeError"

fun example_dumps :: "pyval \<Rightarrow> exn + string" where
  "example_dumps (PStr s) = Inr s"
| "example_dumps PNone = Inr ''null''"
| "example_dumps v = Inl TypeError"

definition example_env :: env where
  "example_env =
     \<lparr>integration_name = ''elasticsearch'',
      ext_service = (\<lambda>pin. ''elasticsearch''),
      trace_query_string = False,
      get_analytics_sample_rate = PNone,
      MAX_SPAN_META_VALUE_LEN = 25000,
      SpanTypes_ELASTICSEARCH = ''elasticsearch'',
      SpanKind_CLIENT = ''client'',
      urlparse = example_urlparse,
      urlencode = example_urlencode,
      extract_netloc = (\<lambda>host. host),
      int_of_str = (\<lambda>s. None)\<rparr>"

definition example_pin :: pin where
  "example_pin = \<lparr>enabled = True, tags = [], sampling_priority = None\<rparr>"

definition example_instance :: transport_instance where
  "example_instance =
     \<lparr>pin_of = Some example_pin,
      connection_pool = Some [''127.0.0.1''],
      node_pool = None,
      serializer = Some example_dumps,
      serializers = None\<rparr>"

definition example_args :: "pyval list" where
  "example_args = [PStr ''GET'', PStr ''/my-index/_search'']"

definition example_kwargs :: kwargs where
  "example_kwargs = [(''params'', PDict [(''q'', PStr ''foo'')])]"

text \<open>
  Underlying calls: one that answers, one that raises a transport error of status 404,
  one that raises \<open>StopIteration\<close>, and asynchronous counterparts of the first two.
\<close>

definition example_response :: pyval where
  "example_response = PTuple [PInt 200, PDict [(''took'', PInt 3)]]"

definition func_ok :: "pyval list \<Rightarrow> kwargs \<Rightarrow> exn + pyval" where
  "func_ok args kwargs = Inr example_response"

definition func_404 :: "pyval list \<Rightarrow> kwargs \<Rightarrow> exn + pyval" where
  "func_404 args kwargs = Inl (TransportError (Some (PInt 404)))"

definition func_stop :: "pyval list \<Rightarrow> kwargs \<Rightarrow> exn + pyval" where
  "func_stop args kwargs = Inl StopIteration"

definition async_ok :: "pyval list \<Rightarrow> kwargs \<Rightarrow> exn + awaitable" where
  "async_ok args kwargs = Inr (Awaitable (Inr example_response))"

definition async_404 :: "pyval list \<Rightarrow> kwargs \<Rightarrow> exn + awaitable" where
  "async_404 args kwargs = Inr (Awaitable (Inl (TransportError (Some (PInt 404)))))"

declare str_nat.simps [simp del]

section \<open>Properties of the source file information\<close>

lemma check_line_number_eq:
  "check_line_number v = (if line_ok v then Inr () else Inl ValueError)"
  by (simp add: check_line_number_def line_ok_def)

lemma check_line_numbers_eq:
  "check_line_numbers self =
     (if lines_ok (start_line self) (end_line self) then Inr () else Inl ValueError)"
  unfolding check_line_numbers_def check_line_number_eq lines_ok_def
  by (simp add: line_ok_def)

lemma check_path_eq:
  "check_path cwd self =
     (case path self of
        NotPath v \<Rightarrow> Inl ValueError
      | PathObj p \<Rightarrow>
          Inr (self\<lparr>path := PathObj (if is_absolute p then p else absolute cwd p)\<rparr>))"
  by (cases "path self") (simp_all add: check_path_def)

lemma post_init_eq:
  "post_init cwd self =
     (case path self of
        NotPath v \<Rightarrow> Inl ValueError
      | PathObj p \<Rightarrow>
          if lines_ok (start_line self) (end_line self)
          then Inr (self\<lparr>path := PathObj (if is_absolute p then p else absolute cwd p)\<rparr>)
          else Inl ValueError)"
  by (cases "path self")
     (simp_all add: post_init_def check_path_eq check_line_numbers_eq)

text \<open>
  Claim C10. Construction succeeds exactly on the inputs whose path is a \<open>Path\<close>
  and whose line numbers are well formed (each \<open>None\<close> or an integer at least 1,
  no end line without a start line, start at most end); every other input raises
  \<open>ValueError\<close>. A constructed object has an absolute \<open>Path\<close>, the line numbers
  it was given, and satisfies the same line conditions; a relative path has been made
  absolute, not rejected.
\<close>

theorem source_file_info_invariant:
  "(post_init cwd self = Inr info \<longrightarrow>
      source_file_invariant info
      \<and> start_line info = start_line self \<and> end_line info = end_line self)
   \<and> (is_path (path self) \<and> lines_ok (start_line self) (end_line self) \<longrightarrow>
        (\<exists>info. post_init cwd self = Inr info))
   \<and> (\<not> (is_path (path self) \<and> lines_ok (start_line self) (end_line self)) \<longrightarrow>
        post_init cwd self = Inl ValueError)"
proof (cases "path self")
  case (NotPath v)
  then show ?thesis
    by (simp add: post_init_eq is_path_def)
next
  case (PathObj p)
  show ?thesis
  proof (cases "lines_ok (start_line self) (end_line self)")
    case False
    with PathObj show ?thesis
      by (simp add: post_init_eq)
  next
    case True
    let ?r = "self\<lparr>path := PathObj (if is_absolute p then p else absolute cwd p)\<rparr>"
    have run: "post_init cwd self = Inr ?r"
      using PathObj True by (simp add: post_init_eq)
    have abs: "is_absolute_path (path ?r)"
      by (simp add: is_absolute_path_def is_absolute_def absolute_def)
    have inv: "source_file_invariant ?r"
      using abs True by (simp add: source_file_invariant_def)
    have "info = ?r" if "post_init cwd self = Inr info"
      using that run by simp
    then show ?thesis
      using run inv PathObj True by (auto simp: is_path_def)
  qed
qed

theorem source_file_info_invariant_witness:
  "post_init [''repo''] \<lparr>path = PathObj \<lparr>rooted = False, parts = [''a.py'']\<rparr>,
                          start_line = PInt 3, end_line = PInt 7\<rparr>
     = Inr \<lparr>path = PathObj \<lparr>rooted = True, parts = [''repo'', ''a.py'']\<rparr>,
            start_line = PInt 3, end_line = PInt 7\<rparr>
   \<and> source_file_invariant
        \<lparr>path = PathObj \<lparr>rooted = True, parts = [''repo'', ''a.py'']\<rparr>,
         start_line = PInt 3, end_line = PInt 7\<rparr>
   \<and> post_init [''repo''] \<lparr>path = PathObj \<lparr>rooted = True, parts = [''a.py'']\<rparr>,
                            start_line = PInt 0, end_line = PNone\<rparr> = Inl ValueError
   \<and> post_init [''repo''] \<lparr>path = NotPath (PStr ''a.py''),
                            start_line = PNone, end_line = PNone\<rparr> = Inl ValueError"
proof -
  let ?rel = "\<lparr>path = PathObj \<lparr>rooted = False, parts = [''a.py'']\<rparr>,
               start_line = PInt 3, end_line = PInt 7\<rparr>"
  let ?out = "\<lparr>path = PathObj \<lparr>rooted = True, parts = [''repo'', ''a.py'']\<rparr>,
               start_line = PInt 3, end_line = PInt 7\<rparr>"
  let ?zero = "\<lparr>path = PathObj \<lparr>rooted = True, parts = [''a.py'']\<rparr>,
                start_line = PInt 0, end_line = PNone\<rparr>"
  let ?str = "\<lparr>path = NotPath (PStr ''a.py''), start_line = PNone, end_line = PNone\<rparr>"
  have run: "post_init [''repo''] ?rel = Inr ?out"
    by (simp add: post_init_eq lines_ok_def line_ok_def is_absolute_def absolute_def)
  have inv: "source_file_invariant ?out"
    using source_file_info_invariant [of "[''repo'']" ?rel ?out] run by simp
  have zero: "post_init [''repo''] ?zero = Inl ValueError"
    using source_file_info_invariant [of "[''repo'']" ?zero]
    by (simp add: lines_ok_def line_ok_def)
  have str: "post_init [''repo''] ?str = Inl ValueError"
    using source_file_info_invariant [of "[''repo'']" ?str]
    by (simp add: is_path_def)
  show ?thesis
    using run inv zero str by simp
qed


section \<open>Properties of the shared routine\<close>

lemma getattr_error: "getattr v name = Inl e \<Longrightarrow> e = AttributeError"
  by (cases v) (simp_all split: option.splits)

lemma meta_and_body_error: "meta_and_body result = Inl e \<Longrightarrow> e = AttributeError"
  unfolding meta_and_body_def
  by (auto split: sum.splits dest: getattr_error)

lemma unpack_pair_error: "unpack_pair items = Inl e \<Longrightarrow> e = ValueError"
  by (cases items rule: unpack_pair.cases) simp_all

lemma status_and_data_error:
  "status_and_data result = (status, Inl e) \<Longrightarrow> is_Exception e"
  unfolding status_and_data_def
  by (auto split: if_splits sum.splits exn.splits prod.splits
           dest: meta_and_body_error unpack_pair_error)

lemma data_get_error: "data_get data name = Inl e \<Longrightarrow> e = AttributeError"
  by (cases data) simp_all

lemma py_int_error: "py_int env v = Inl e \<Longrightarrow> is_Exception e"
  by (cases v) (auto split: option.splits)

lemma took_metric_error: "took_metric env data = (evs, Inl e) \<Longrightarrow> is_Exception e"
  unfolding took_metric_def
  by (auto split: sum.splits if_splits dest: data_get_error py_int_error)

lemma response_tags_returns: "snd (response_tags env result) = None"
proof -
  obtain status unpacked where sd: "status_and_data result = (status, unpacked)"
    by (cases "status_and_data result")
  show ?thesis
  proof (cases unpacked)
    case (Inl e)
    with sd have "is_Exception e" by (simp add: status_and_data_error)
    with sd Inl show ?thesis by (simp add: response_tags_def)
  next
    case (Inr data)
    obtain evs r where tm: "took_metric env data = (evs, r)"
      by (cases "took_metric env data")
    show ?thesis
    proof (cases r)
      case (Inl e)
      with tm have "is_Exception e" by (simp add: took_metric_error)
      with sd Inr tm Inl show ?thesis by (simp add: response_tags_def)
    next
      case (Inr u)
      with sd \<open>unpacked = Inr data\<close> tm show ?thesis by (simp add: response_tags_def)
    qed
  qed
qed

lemma response_tags_eq: "response_tags env result = (fst (response_tags env result), None)"
  using response_tags_returns [of env result] by (cases "response_tags env result") simp

lemma coro_send_eq: "coro_send env point result = (after_yield env point result, None)"
proof (cases point)
  case AtDelegate
  then show ?thesis
    using response_tags_eq [of env result]
    by (cases "response_tags env result") simp
qed simp_all

lemma get_perform_request_eq:
  "get_perform_request env func instance args kwargs =
     (case coro_next env func instance args kwargs of
        (next_events, Inl e) \<Rightarrow>
          \<lparr>outcome = Inl e, events = next_events, suspended = None\<rparr>
      | (next_events, Inr (result, point)) \<Rightarrow>
          \<lparr>outcome = Inr result, events = next_events @ after_yield env point result,
           suspended = None\<rparr>)"
  unfolding get_perform_request_def
  by (simp add: coro_send_eq split: prod.splits sum.splits)

lemma get_perform_request_async_eq:
  "get_perform_request_async env func instance args kwargs =
     (case coro_next env func instance args kwargs of
        (next_events, Inl e) \<Rightarrow>
          \<lparr>outcome = Inl e, events = next_events, suspended = None\<rparr>
      | (next_events, Inr (awaited, point)) \<Rightarrow>
         (case await awaited of
            Inl e \<Rightarrow>
              \<lparr>outcome = Inl e, events = next_events @ [Await], suspended = Some point\<rparr>
          | Inr result \<Rightarrow>
              \<lparr>outcome = Inr result,
               events = next_events @ [Await] @ after_yield env point result,
               suspended = None\<rparr>))"
  unfolding get_perform_request_async_def
  by (simp add: coro_send_eq split: prod.splits sum.splits)

lemma calls_append: "calls (xs @ ys) = calls xs @ calls ys"
  by (simp add: calls_def)

lemma span_closes_append: "span_closes (xs @ ys) = span_closes xs + span_closes ys"
  by (simp add: span_closes_def)

lemma spans_opened_append: "spans_opened (xs @ ys) = spans_opened xs + spans_opened ys"
  by (simp add: spans_opened_def)

lemma tag_str_writes_append:
  "tag_str_writes key (xs @ ys) = tag_str_writes key xs @ tag_str_writes key ys"
  by (simp add: tag_str_writes_def)

lemma tag_writes_append: "tag_writes key (xs @ ys) = tag_writes key xs @ tag_writes key ys"
  by (simp add: tag_writes_def)

lemma error_writes_append: "error_writes (xs @ ys) = error_writes xs @ error_writes ys"
  by (simp add: error_writes_def)

lemma calls_none: "list_all P evs \<Longrightarrow> (\<And>ev. P ev \<Longrightarrow> \<not> is_call ev) \<Longrightarrow> calls evs = []"
  by (induction evs) (simp_all add: calls_def)

lemma span_closes_none:
  "list_all P evs \<Longrightarrow> (\<And>ev. P ev \<Longrightarrow> \<not> is_exit ev) \<Longrightarrow> span_closes evs = 0"
  by (induction evs) (simp_all add: span_closes_def)

lemma spans_opened_none:
  "list_all P evs \<Longrightarrow> (\<And>ev. P ev \<Longrightarrow> \<not> is_trace ev) \<Longrightarrow> spans_opened evs = 0"
  by (induction evs) (simp_all add: spans_opened_def)

lemma tag_str_writes_none:
  "list_all P evs \<Longrightarrow> (\<And>ev. P ev \<Longrightarrow> tag_str_value key ev = [])
     \<Longrightarrow> tag_str_writes key evs = []"
  by (induction evs) (simp_all add: tag_str_writes_def)

lemma tag_writes_none:
  "list_all P evs \<Longrightarrow> (\<And>ev. P ev \<Longrightarrow> tag_value key ev = []) \<Longrightarrow> tag_writes key evs = []"
  by (induction evs) (simp_all add: tag_writes_def)

lemma error_writes_none:
  "list_all P evs \<Longrightarrow> (\<And>ev. P ev \<Longrightarrow> error_value ev = []) \<Longrightarrow> error_writes evs = []"
  by (induction evs) (simp_all add: error_writes_def)

lemma open_event_kind:
  "is_open_event ev \<Longrightarrow> \<not> is_call ev \<and> \<not> is_exit ev \<and> error_value ev = [] \<and> ev \<noteq> Quantize"
  by (cases ev) simp_all

lemma request_event_kind:
  "is_request_event ev \<Longrightarrow>
     \<not> is_call ev \<and> \<not> is_exit ev \<and> \<not> is_trace ev \<and> error_value ev = []"
  by (cases ev) simp_all

lemma outcome_event_kind:
  "is_outcome_event ev \<Longrightarrow>
     \<not> is_call ev \<and> \<not> is_exit ev \<and> \<not> is_trace ev \<and> ev \<noteq> Quantize
     \<and> tag_str_value key ev = []"
  by (cases ev) simp_all

lemma open_span_events: "list_all is_open_event (open_span env pin)"
  by (simp add: open_span_def)

lemma target_host_tags_events: "list_all is_request_event (target_host_tags env connections)"
  by (induction connections) simp_all

lemma body_tags_events:
  "body_tags env inst method body = (evs, r) \<Longrightarrow> list_all is_request_event evs"
  by (auto simp: body_tags_def split: sum.splits if_splits)

lemma request_tags_events:
  "list_all is_request_event (fst (request_tags env inst args kwargs))"
  unfolding request_tags_def
  by (auto simp: target_host_tags_events split: sum.splits prod.splits
           dest: body_tags_events)

lemma error_tags_events: "list_all is_outcome_event (error_tags e)"
  by (cases e) simp_all

lemma took_metric_events:
  "took_metric env data = (evs, r) \<Longrightarrow> list_all is_outcome_event evs"
  by (auto simp: took_metric_def split: sum.splits if_splits)

lemma response_tags_events: "list_all is_outcome_event (fst (response_tags env result))"
  unfolding response_tags_def
  by (auto split: sum.splits prod.splits dest: took_metric_events)

section \<open>The three paths of a wrapped call\<close>

lemma leave_generator_id: "e \<noteq> StopIteration \<Longrightarrow> leave_generator e = e"
  by (cases e) simp_all

lemma through_generator_Inl [simp]: "through_generator (Inl e) = Inl (leave_generator e)"
  by (simp add: through_generator_def)

lemma through_generator_Inr [simp]: "through_generator (Inr v) = Inr v"
  by (simp add: through_generator_def)

lemma through_generator_id: "result \<noteq> Inl StopIteration \<Longrightarrow> through_generator result = result"
  by (cases result) (simp_all add: leave_generator_id)

lemma coro_next_disabled:
  "tracing_disabled inst \<Longrightarrow>
   coro_next env func inst args kwargs =
     ([Call args kwargs],
      case func args kwargs of
        Inl e \<Rightarrow> Inl (leave_generator e)
      | Inr y \<Rightarrow> Inr (y, AtDisabled))"
  by (cases "pin_of inst")
     (simp_all add: coro_next_def tracing_disabled_def split: sum.splits)

lemma coro_next_dropped:
  "pin_of inst = Some pin \<Longrightarrow> enabled pin \<Longrightarrow> dropped pin \<Longrightarrow>
   coro_next env func inst args kwargs =
     (case func args kwargs of
        Inl e \<Rightarrow>
          (open_span env pin @ [Call args kwargs, Exit (Some e)], Inl (leave_generator e))
      | Inr y \<Rightarrow> (open_span env pin @ [Call args kwargs], Inr (y, AtDropped)))"
  by (simp add: coro_next_def)

lemma coro_next_raises:
  "pin_of inst = Some pin \<Longrightarrow> enabled pin \<Longrightarrow> \<not> dropped pin \<Longrightarrow>
   request_tags env inst args kwargs = (req, Inl e) \<Longrightarrow>
   coro_next env func inst args kwargs =
     (open_span env pin @ req @ [Exit (Some e)], Inl (leave_generator e))"
  by (simp add: coro_next_def)

lemma coro_next_delegate:
  "pin_of inst = Some pin \<Longrightarrow> enabled pin \<Longrightarrow> \<not> dropped pin \<Longrightarrow>
   request_tags env inst args kwargs = (req, Inr ()) \<Longrightarrow>
   coro_next env func inst args kwargs =
     (case func args kwargs of
        Inl e \<Rightarrow>
          (open_span env pin @ req @ [Call args kwargs] @ error_tags e @ [Exit (Some e)],
           Inl (leave_generator e))
      | Inr y \<Rightarrow> (open_span env pin @ req @ [Call args kwargs], Inr (y, AtDelegate)))"
  by (simp add: coro_next_def)

text \<open>The synchronous adapter on each path.\<close>

lemma sync_disabled:
  "tracing_disabled inst \<Longrightarrow>
   get_perform_request env func inst args kwargs =
     \<lparr>outcome = through_generator (func args kwargs), events = [Call args kwargs],
      suspended = None\<rparr>"
  by (simp add: get_perform_request_eq coro_next_disabled through_generator_def
        split: sum.splits)

lemma sync_dropped:
  "pin_of inst = Some pin \<Longrightarrow> enabled pin \<Longrightarrow> dropped pin \<Longrightarrow>
   get_perform_request env func inst args kwargs =
     \<lparr>outcome = through_generator (func args kwargs),
      events = open_span env pin
        @ [Call args kwargs,
           Exit (case func args kwargs of Inl e \<Rightarrow> Some e | Inr v \<Rightarrow> None)],
      suspended = None\<rparr>"
  by (simp add: get_perform_request_eq coro_next_dropped through_generator_def
        split: sum.splits)

lemma sync_raises:
  "pin_of inst = Some pin \<Longrightarrow> enabled pin \<Longrightarrow> \<not> dropped pin \<Longrightarrow>
   request_tags env inst args kwargs = (req, Inl e) \<Longrightarrow>
   get_perform_request env func inst args kwargs =
     \<lparr>outcome = Inl (leave_generator e), events = open_span env pin @ req @ [Exit (Some e)],
      suspended = None\<rparr>"
  by (simp add: get_perform_request_eq coro_next_raises)

lemma sync_delegate:
  "pin_of inst = Some pin \<Longrightarrow> enabled pin \<Longrightarrow> \<not> dropped pin \<Longrightarrow>
   request_tags env inst args kwargs = (req, Inr ()) \<Longrightarrow>
   get_perform_request env func inst args kwargs =
     \<lparr>outcome = through_generator (func args kwargs),
      events = open_span env pin @ req @ [Call args kwargs]
        @ (case func args kwargs of
             Inl e \<Rightarrow> error_tags e @ [Exit (Some e)]
           | Inr v \<Rightarrow> fst (response_tags env v) @ [Exit None]),
      suspended = None\<rparr>"
  by (simp add: get_perform_request_eq coro_next_delegate through_generator_def
        split: sum.splits)

text \<open>
  The asynchronous adapter on each path. When the awaitable raises, the run ends with
  the \<open>Await\<close>: nothing of the generator runs after it.
\<close>

lemma async_disabled:
  "tracing_disabled inst \<Longrightarrow>
   get_perform_request_async env func inst args kwargs =
     (case func args kwargs of
        Inl e \<Rightarrow>
          \<lparr>outcome = Inl (leave_generator e), events = [Call args kwargs], suspended = None\<rparr>
      | Inr awaited \<Rightarrow>
          \<lparr>outcome = await awaited, events = [Call args kwargs, Await],
           suspended = (case await awaited of Inl e \<Rightarrow> Some AtDisabled | Inr v \<Rightarrow> None)\<rparr>)"
  by (simp add: get_perform_request_async_eq coro_next_disabled split: sum.splits)

lemma async_dropped:
  "pin_of inst = Some pin \<Longrightarrow> enabled pin \<Longrightarrow> dropped pin \<Longrightarrow>
   get_perform_request_async env func inst args kwargs =
     (case func args kwargs of
        Inl e \<Rightarrow>
          \<lparr>outcome = Inl (leave_generator e),
           events = open_span env pin @ [Call args kwargs, Exit (Some e)],
           suspended = None\<rparr>
      | Inr awaited \<Rightarrow>
         (case await awaited of
            Inl e \<Rightarrow>
              \<lparr>outcome = Inl e, events = open_span env pin @ [Call args kwargs, Await],
               suspended = Some AtDropped\<rparr>
          | Inr v \<Rightarrow>
              \<lparr>outcome = Inr v,
               events = open_span env pin @ [Call args kwargs, Await, Exit None],
               suspended = None\<rparr>))"
  by (simp add: get_perform_request_async_eq coro_next_dropped split: sum.splits)

lemma async_raises:
  "pin_of inst = Some pin \<Longrightarrow> enabled pin \<Longrightarrow> \<not> dropped pin \<Longrightarrow>
   request_tags env inst args kwargs = (req, Inl e) \<Longrightarrow>
   get_perform_request_async env func inst args kwargs =
     \<lparr>outcome = Inl (leave_generator e), events = open_span env pin @ req @ [Exit (Some e)],
      suspended = None\<rparr>"
  by (simp add: get_perform_request_async_eq coro_next_raises)

lemma async_delegate:
  "pin_of inst = Some pin \<Longrightarrow> enabled pin \<Longrightarrow> \<not> dropped pin \<Longrightarrow>
   request_tags env inst args kwargs = (req, Inr ()) \<Longrightarrow>
   get_perform_request_async env func inst args kwargs =
     (case func args kwargs of
        Inl e \<Rightarrow>
          \<lparr>outcome = Inl (leave_generator e),
           events = open_span env pin @ req @ [Call args kwargs] @ error_tags e
             @ [Exit (Some e)],
           suspended = None\<rparr>
      | Inr awaited \<Rightarrow>
         (case await awaited of
            Inl e \<Rightarrow>
              \<lparr>outcome = Inl e,
               events = open_span env pin @ req @ [Call args kwargs, Await],
               suspended = Some AtDelegate\<rparr>
          | Inr v \<Rightarrow>
              \<lparr>outcome = Inr v,
               events = open_span env pin @ req @ [Call args kwargs, Await]
                 @ fst (response_tags env v) @ [Exit None],
               suspended = None\<rparr>))"
  by (simp add: get_perform_request_async_eq coro_next_delegate split: sum.splits)

text \<open>The outcome of a wrapped call whose underlying function does not itself raise
  \<open>StopIteration\<close>, on the paths that reach the underlying function.\<close>

lemma async_outcome_disabled:
  "tracing_disabled inst \<Longrightarrow> afunc args kwargs \<noteq> Inl StopIteration \<Longrightarrow>
   outcome (get_perform_request_async env afunc inst args kwargs)
     = unwrapped_async afunc args kwargs"
  by (cases "afunc args kwargs")
     (simp_all add: async_disabled unwrapped_async_def leave_generator_id)

lemma async_outcome_dropped:
  "pin_of inst = Some pin \<Longrightarrow> enabled pin \<Longrightarrow> dropped pin \<Longrightarrow>
   afunc args kwargs \<noteq> Inl StopIteration \<Longrightarrow>
   outcome (get_perform_request_async env afunc inst args kwargs)
     = unwrapped_async afunc args kwargs"
  by (cases "afunc args kwargs")
     (simp_all add: async_dropped unwrapped_async_def leave_generator_id split: sum.splits)

lemma async_outcome_delegate:
  "pin_of inst = Some pin \<Longrightarrow> enabled pin \<Longrightarrow> \<not> dropped pin \<Longrightarrow>
   request_tags env inst args kwargs = (req, Inr ()) \<Longrightarrow>
   afunc args kwargs \<noteq> Inl StopIteration \<Longrightarrow>
   outcome (get_perform_request_async env afunc inst args kwargs)
     = unwrapped_async afunc args kwargs"
  by (cases "afunc args kwargs")
     (simp_all add: async_delegate unwrapped_async_def leave_generator_id split: sum.splits)

section \<open>Calls of the underlying function in a run\<close>

lemma calls_open_span: "calls (open_span env pin) = []"
  by (rule calls_none [OF open_span_events]) (simp add: open_event_kind)

lemma calls_request_tags: "request_tags env inst args kwargs = (req, r) \<Longrightarrow> calls req = []"
  using calls_none [OF request_tags_events, of env inst args kwargs]
  by (simp add: request_event_kind)

lemma calls_error_tags: "calls (error_tags e) = []"
  by (rule calls_none [OF error_tags_events]) (simp add: outcome_event_kind)

lemma calls_response_tags: "calls (fst (response_tags env v)) = []"
  by (rule calls_none [OF response_tags_events]) (simp add: outcome_event_kind)

lemma calls_Call: "calls (Call args kwargs # evs) = Call args kwargs # calls evs"
  by (simp add: calls_def)

lemma calls_other: "\<not> is_call ev \<Longrightarrow> calls (ev # evs) = calls evs"
  by (simp add: calls_def)

lemma calls_Nil: "calls [] = []"
  by (simp add: calls_def)

lemmas calls_simps =
  calls_append calls_open_span calls_error_tags calls_response_tags calls_Call
  calls_other calls_Nil

lemma traced_pin:
  "\<not> tracing_disabled inst \<Longrightarrow> \<exists>pin. pin_of inst = Some pin \<and> enabled pin"
  by (cases "pin_of inst") (simp_all add: tracing_disabled_def)

lemma fully_instrumented_pin:
  "fully_instrumented inst \<Longrightarrow> \<exists>pin. pin_of inst = Some pin \<and> enabled pin \<and> \<not> dropped pin"
  by (cases "pin_of inst") (simp_all add: fully_instrumented_def)

text \<open>
  Claim C7, as stated, fails on one kind of failure. The underlying function is called
  inside the generator (line 128), and a \<open>StopIteration\<close> it raises leaves the
  generator as a \<open>RuntimeError\<close>: with tracing disabled, the unwrapped call raises
  \<open>StopIteration\<close> and the wrapped one \<open>RuntimeError\<close>.
\<close>

theorem disabled_tracing_path_counterexample:
  "tracing_disabled (example_instance\<lparr>pin_of := None\<rparr>)
   \<and> unwrapped func_stop example_args example_kwargs = Inl StopIteration
   \<and> outcome (get_perform_request example_env func_stop (example_instance\<lparr>pin_of := None\<rparr>)
        example_args example_kwargs) = Inl RuntimeError
   \<and> events (get_perform_request example_env func_stop (example_instance\<lparr>pin_of := None\<rparr>)
        example_args example_kwargs) = [Call example_args example_kwargs]"
proof -
  have none: "tracing_disabled (example_instance\<lparr>pin_of := None\<rparr>)"
    by (simp add: tracing_disabled_def)
  show ?thesis
    using none
    by (simp add: sync_disabled [OF none] unwrapped_def func_stop_def through_generator_def)
qed

text \<open>
  Claim C7, amended. When the instance has no pin, or a pin that is not enabled, a
  wrapped call under either adapter creates no span and sets no tag: its only effect is
  the one call of the underlying function, with the arguments it was given (followed,
  under the asynchronous adapter, by awaiting what that call returned). It returns what
  the unwrapped call returns, and raises what the unwrapped call raises whenever that is
  not a \<open>StopIteration\<close> raised by the underlying function itself.
\<close>

theorem disabled_tracing_path:
  assumes "tracing_disabled inst"
  shows "(func args kwargs \<noteq> Inl StopIteration \<longrightarrow>
           outcome (get_perform_request env func inst args kwargs)
             = unwrapped func args kwargs)
    \<and> events (get_perform_request env func inst args kwargs) = [Call args kwargs]
    \<and> (afunc args kwargs \<noteq> Inl StopIteration \<longrightarrow>
           outcome (get_perform_request_async env afunc inst args kwargs)
             = unwrapped_async afunc args kwargs)
    \<and> events (get_perform_request_async env afunc inst args kwargs)
        = Call args kwargs # (case afunc args kwargs of Inl e \<Rightarrow> [] | Inr awaited \<Rightarrow> [Await])"
proof -
  have sync: "get_perform_request env func inst args kwargs =
      \<lparr>outcome = through_generator (func args kwargs), events = [Call args kwargs],
       suspended = None\<rparr>"
    using assms by (rule sync_disabled)
  have async: "events (get_perform_request_async env afunc inst args kwargs)
        = Call args kwargs # (case afunc args kwargs of Inl e \<Rightarrow> [] | Inr awaited \<Rightarrow> [Await])"
    using assms
    by (simp add: async_disabled split: sum.splits)
  show ?thesis
    using sync async async_outcome_disabled [OF assms, of afunc args kwargs env]
    by (simp add: unwrapped_def through_generator_id)
qed

theorem disabled_tracing_path_witness:
  "tracing_disabled (example_instance\<lparr>pin_of := None\<rparr>)
   \<and> tracing_disabled (example_instance\<lparr>pin_of := Some (example_pin\<lparr>enabled := False\<rparr>)\<rparr>)
   \<and> func_ok example_args example_kwargs \<noteq> Inl StopIteration
   \<and> func_404 example_args example_kwargs \<noteq> Inl StopIteration
   \<and> async_404 example_args example_kwargs \<noteq> Inl StopIteration
   \<and> outcome (get_perform_request example_env func_ok (example_instance\<lparr>pin_of := None\<rparr>)
        example_args example_kwargs) = Inr example_response
   \<and> outcome (get_perform_request example_env func_404
        (example_instance\<lparr>pin_of := Some (example_pin\<lparr>enabled := False\<rparr>)\<rparr>)
        example_args example_kwargs) = Inl (TransportError (Some (PInt 404)))
   \<and> events (get_perform_request example_env func_404
        (example_instance\<lparr>pin_of := Some (example_pin\<lparr>enabled := False\<rparr>)\<rparr>)
        example_args example_kwargs) = [Call example_args example_kwargs]
   \<and> outcome (get_perform_request_async example_env async_404
        (example_instance\<lparr>pin_of := None\<rparr>) example_args example_kwargs)
        = Inl (TransportError (Some (PInt 404)))
   \<and> events (get_perform_request_async example_env async_404
        (example_instance\<lparr>pin_of := None\<rparr>) example_args example_kwargs)
        = [Call example_args example_kwargs, Await]"
proof -
  let ?none = "example_instance\<lparr>pin_of := None\<rparr>"
  let ?off = "example_instance\<lparr>pin_of := Some (example_pin\<lparr>enabled := False\<rparr>)\<rparr>"
  have none: "tracing_disabled ?none"
    by (simp add: tracing_disabled_def)
  have off: "tracing_disabled ?off"
    by (simp add: tracing_disabled_def)
  show ?thesis
    using none off
      disabled_tracing_path [OF none, of func_ok example_args example_kwargs example_env
        async_404]
      disabled_tracing_path [OF off, of func_404 example_args example_kwargs example_env
        async_404]
    by (simp add: unwrapped_def unwrapped_async_def func_ok_def func_404_def async_404_def)
qed

text \<open>
  Claim C1, as stated, fails, in two ways. The routine unpacks exactly two positional
  arguments (line 149) before it calls the underlying function: a call that passes the
  target by keyword succeeds unwrapped; wrapped, with tracing enabled, it raises
  \<open>ValueError\<close> and the underlying function is never called. And the underlying
  function is called inside the generator (lines 128, 146 and 206): a
  \<open>StopIteration\<close> it raises reaches the caller of the wrapper as a
  \<open>RuntimeError\<close>.
\<close>

theorem transparency_counterexample:
  "unwrapped func_ok [PStr ''GET''] [(''url'', PStr ''/my-index/_search'')]
     = Inr example_response
   \<and> outcome (get_perform_request example_env func_ok example_instance
        [PStr ''GET''] [(''url'', PStr ''/my-index/_search'')]) = Inl ValueError
   \<and> calls (events (get_perform_request example_env func_ok example_instance
        [PStr ''GET''] [(''url'', PStr ''/my-index/_search'')])) = []
   \<and> unwrapped func_stop example_args example_kwargs = Inl StopIteration
   \<and> outcome (get_perform_request example_env func_stop example_instance example_args
        example_kwargs) = Inl RuntimeError"
proof -
  have req: "request_tags example_env example_instance [PStr ''GET'']
      [(''url'', PStr ''/my-index/_search'')] = ([], Inl ValueError)"
    by (simp add: request_tags_def)
  have pin: "pin_of example_instance = Some example_pin" "enabled example_pin"
    "\<not> dropped example_pin"
    by (simp_all add: example_instance_def example_pin_def dropped_def)
  have ok: "request_tags example_env example_instance example_args example_kwargs
      = (fst (request_tags example_env example_instance example_args example_kwargs), Inr ())"
    by (simp add: request_tags_def example_env_def example_instance_def example_args_def
          example_kwargs_def url_and_params_def kwargs_get_def get_connections_def
          body_tags_def serialize_body_def dumps_with_def body_tag_def)
  show ?thesis
    by (simp add: sync_raises [OF pin req] sync_delegate [OF pin ok] unwrapped_def
          func_ok_def func_stop_def through_generator_def calls_simps)
qed

text \<open>
  Claim C1, amended. Whenever the routine's own derivation of the request tags does not
  raise (it is not run at all when tracing is disabled or the trace is dropped), the
  underlying function is called exactly once, with the original positional and keyword
  arguments, and the wrapped call under either adapter returns the value of the
  unwrapped call, and raises its failure whenever that is not a \<open>StopIteration\<close>
  raised by the underlying function itself.
\<close>

theorem transparency:
  assumes "fully_instrumented inst \<longrightarrow> snd (request_tags env inst args kwargs) = Inr ()"
  shows "(func args kwargs \<noteq> Inl StopIteration \<longrightarrow>
           outcome (get_perform_request env func inst args kwargs)
             = unwrapped func args kwargs)
    \<and> calls (events (get_perform_request env func inst args kwargs)) = [Call args kwargs]
    \<and> (afunc args kwargs \<noteq> Inl StopIteration \<longrightarrow>
           outcome (get_perform_request_async env afunc inst args kwargs)
             = unwrapped_async afunc args kwargs)
    \<and> calls (events (get_perform_request_async env afunc inst args kwargs))
        = [Call args kwargs]"
proof (cases "tracing_disabled inst")
  case True
  then show ?thesis
    using async_outcome_disabled [OF True, of afunc args kwargs env]
    by (simp add: sync_disabled async_disabled unwrapped_def calls_simps
          through_generator_id split: sum.splits)
next
  case False
  then obtain pin where pin: "pin_of inst = Some pin" "enabled pin"
    using traced_pin by blast
  show ?thesis
  proof (cases "dropped pin")
    case True
    show ?thesis
      using async_outcome_dropped [OF pin True, of afunc args kwargs env]
      by (simp add: sync_dropped [OF pin True] async_dropped [OF pin True] unwrapped_def
            calls_simps through_generator_id split: sum.splits)
  next
    case False
    with pin have "fully_instrumented inst"
      by (simp add: fully_instrumented_def)
    with assms obtain req where req: "request_tags env inst args kwargs = (req, Inr ())"
      by (cases "request_tags env inst args kwargs") auto
    have none: "calls req = []"
      using req by (rule calls_request_tags)
    show ?thesis
      using async_outcome_delegate [OF pin False req, of afunc]
      by (simp add: sync_delegate [OF pin False req] async_delegate [OF pin False req]
            unwrapped_def calls_simps none through_generator_id split: sum.splits)
  qed
qed

lemma example_request_tags:
  "request_tags example_env example_instance example_args example_kwargs =
     ([SetTagStr METHOD (PStr ''GET''), SetTagStr URL (PStr ''/my-index/_search''),
       SetTagStr PARAMS (PStr ''q=foo''), SetTagStr TARGET_HOST (PStr ''127.0.0.1''),
       SetTagStr BODY (PStr ''null''), SetTag ANALYTICS_SAMPLE_RATE_KEY PNone, Quantize],
      Inr ())"
  by (simp add: request_tags_def example_env_def example_instance_def example_args_def
        example_kwargs_def url_and_params_def kwargs_get_def get_connections_def
        body_tags_def serialize_body_def dumps_with_def body_tag_def)

lemma example_fully_instrumented: "fully_instrumented example_instance"
  by (simp add: fully_instrumented_def example_instance_def example_pin_def dropped_def)

theorem transparency_witness:
  "fully_instrumented example_instance
   \<and> snd (request_tags example_env example_instance example_args example_kwargs) = Inr ()
   \<and> func_404 example_args example_kwargs \<noteq> Inl StopIteration
   \<and> async_ok example_args example_kwargs \<noteq> Inl StopIteration
   \<and> outcome (get_perform_request example_env func_404 example_instance example_args
        example_kwargs) = Inl (TransportError (Some (PInt 404)))
   \<and> calls (events (get_perform_request example_env func_404 example_instance example_args
        example_kwargs)) = [Call example_args example_kwargs]
   \<and> outcome (get_perform_request_async example_env async_ok example_instance example_args
        example_kwargs) = Inr example_response
   \<and> calls (events (get_perform_request_async example_env async_ok example_instance
        example_args example_kwargs)) = [Call example_args example_kwargs]"
proof -
  have ok: "fully_instrumented example_instance \<longrightarrow>
      snd (request_tags example_env example_instance example_args example_kwargs) = Inr ()"
    by (simp add: example_request_tags)
  show ?thesis
    using example_fully_instrumented
      transparency [OF ok, of func_404 async_ok]
    by (simp add: unwrapped_def unwrapped_async_def func_404_def async_ok_def
          example_request_tags)
qed

section \<open>Error tagging and span closing\<close>

lemma example_pin_facts:
  "pin_of example_instance = Some example_pin" "enabled example_pin"
  "\<not> dropped example_pin"
  by (simp_all add: example_instance_def example_pin_def dropped_def)

lemma example_open_span:
  "open_span example_env example_pin =
     [Trace ''elasticsearch.query'' ''elasticsearch'' ''elasticsearch'',
      SetTagStr COMPONENT (PStr ''elasticsearch''), SetTagStr SPAN_KIND (PStr ''client''),
      SetTag SPAN_MEASURED_KEY PNone]"
  by (simp add: open_span_def example_env_def example_pin_def)

lemma example_sync_404:
  "get_perform_request example_env func_404 example_instance example_args example_kwargs =
     \<lparr>outcome = Inl (TransportError (Some (PInt 404))),
      events =
        [Trace ''elasticsearch.query'' ''elasticsearch'' ''elasticsearch'',
         SetTagStr COMPONENT (PStr ''elasticsearch''), SetTagStr SPAN_KIND (PStr ''client''),
         SetTag SPAN_MEASURED_KEY PNone,
         SetTagStr METHOD (PStr ''GET''), SetTagStr URL (PStr ''/my-index/_search''),
         SetTagStr PARAMS (PStr ''q=foo''), SetTagStr TARGET_HOST (PStr ''127.0.0.1''),
         SetTagStr BODY (PStr ''null''), SetTag ANALYTICS_SAMPLE_RATE_KEY PNone, Quantize,
         Call example_args example_kwargs,
         SetTag STATUS_CODE (PInt 404), SetError 1,
         Exit (Some (TransportError (Some (PInt 404))))],
      suspended = None\<rparr>"
  by (simp add: sync_delegate [OF example_pin_facts example_request_tags]
        example_open_span func_404_def)

lemma example_async_404:
  "get_perform_request_async example_env async_404 example_instance example_args
     example_kwargs =
     \<lparr>outcome = Inl (TransportError (Some (PInt 404))),
      events =
        [Trace ''elasticsearch.query'' ''elasticsearch'' ''elasticsearch'',
         SetTagStr COMPONENT (PStr ''elasticsearch''), SetTagStr SPAN_KIND (PStr ''client''),
         SetTag SPAN_MEASURED_KEY PNone,
         SetTagStr METHOD (PStr ''GET''), SetTagStr URL (PStr ''/my-index/_search''),
         SetTagStr PARAMS (PStr ''q=foo''), SetTagStr TARGET_HOST (PStr ''127.0.0.1''),
         SetTagStr BODY (PStr ''null''), SetTag ANALYTICS_SAMPLE_RATE_KEY PNone, Quantize,
         Call example_args example_kwargs,
         Await],
      suspended = Some AtDelegate\<rparr>"
  by (simp add: async_delegate [OF example_pin_facts example_request_tags]
        example_open_span async_404_def)

lemma example_response_tags:
  "response_tags example_env example_response =
     ([SetMetric TOOK 3, SetTag STATUS_CODE (PInt 200)], None)"
  by (simp add: response_tags_def example_response_def status_and_data_def
        meta_and_body_def took_metric_def)

lemma example_sync_ok:
  "get_perform_request example_env func_ok example_instance example_args example_kwargs =
     \<lparr>outcome = Inr example_response,
      events =
        [Trace ''elasticsearch.query'' ''elasticsearch'' ''elasticsearch'',
         SetTagStr COMPONENT (PStr ''elasticsearch''), SetTagStr SPAN_KIND (PStr ''client''),
         SetTag SPAN_MEASURED_KEY PNone,
         SetTagStr METHOD (PStr ''GET''), SetTagStr URL (PStr ''/my-index/_search''),
         SetTagStr PARAMS (PStr ''q=foo''), SetTagStr TARGET_HOST (PStr ''127.0.0.1''),
         SetTagStr BODY (PStr ''null''), SetTag ANALYTICS_SAMPLE_RATE_KEY PNone, Quantize,
         Call example_args example_kwargs,
         SetMetric TOOK 3, SetTag STATUS_CODE (PInt 200),
         Exit None],
      suspended = None\<rparr>"
  by (simp add: sync_delegate [OF example_pin_facts example_request_tags]
        example_open_span func_ok_def example_response_tags)

lemma example_async_ok:
  "get_perform_request_async example_env async_ok example_instance example_args
     example_kwargs =
     \<lparr>outcome = Inr example_response,
      events =
        [Trace ''elasticsearch.query'' ''elasticsearch'' ''elasticsearch'',
         SetTagStr COMPONENT (PStr ''elasticsearch''), SetTagStr SPAN_KIND (PStr ''client''),
         SetTag SPAN_MEASURED_KEY PNone,
         SetTagStr METHOD (PStr ''GET''), SetTagStr URL (PStr ''/my-index/_search''),
         SetTagStr PARAMS (PStr ''q=foo''), SetTagStr TARGET_HOST (PStr ''127.0.0.1''),
         SetTagStr BODY (PStr ''null''), SetTag ANALYTICS_SAMPLE_RATE_KEY PNone, Quantize,
         Call example_args example_kwargs,
         Await,
         SetMetric TOOK 3, SetTag STATUS_CODE (PInt 200),
         Exit None],
      suspended = None\<rparr>"
  by (simp add: async_delegate [OF example_pin_facts example_request_tags]
        example_open_span async_ok_def example_response_tags)

subsection \<open>The synchronous adapter tags errors and closes the span\<close>

lemma span_closes_Nil: "span_closes [] = 0"
  by (simp add: span_closes_def)

lemma span_closes_Cons:
  "span_closes (ev # evs) = (if is_exit ev then 1 else 0) + span_closes evs"
  by (simp add: span_closes_def)

lemma span_closes_open_span: "span_closes (open_span env pin) = 0"
  by (rule span_closes_none [OF open_span_events]) (simp add: open_event_kind)

lemma span_closes_request_tags:
  "request_tags env inst args kwargs = (req, r) \<Longrightarrow> span_closes req = 0"
  using span_closes_none [OF request_tags_events, of env inst args kwargs]
  by (simp add: request_event_kind)

lemma span_closes_error_tags: "span_closes (error_tags e) = 0"
  by (rule span_closes_none [OF error_tags_events]) (simp add: outcome_event_kind)

lemma span_closes_response_tags: "span_closes (fst (response_tags env v)) = 0"
  by (rule span_closes_none [OF response_tags_events]) (simp add: outcome_event_kind)

lemmas span_closes_simps =
  span_closes_append span_closes_Nil span_closes_Cons span_closes_open_span
  span_closes_error_tags span_closes_response_tags

text \<open>
  Under the synchronous adapter a span that was opened is closed exactly once, on every
  path: the trace dropped, the request stage raising, the underlying call raising or
  returning, the response tagging failing softly.
\<close>

lemma sync_span_closed_once:
  assumes "\<not> tracing_disabled inst"
  shows "span_closes (events (get_perform_request env func inst args kwargs)) = 1"
proof -
  obtain pin where pin: "pin_of inst = Some pin" "enabled pin"
    using assms traced_pin by blast
  show ?thesis
  proof (cases "dropped pin")
    case True
    show ?thesis
      by (simp add: sync_dropped [OF pin True] span_closes_simps)
  next
    case False
    obtain req r where req: "request_tags env inst args kwargs = (req, r)"
      by (cases "request_tags env inst args kwargs")
    have none: "span_closes req = 0"
      using req by (rule span_closes_request_tags)
    show ?thesis
    proof (cases r)
      case (Inl e)
      with req have "request_tags env inst args kwargs = (req, Inl e)" by simp
      from sync_raises [OF pin False this] show ?thesis
        by (simp add: span_closes_simps none)
    next
      case (Inr u)
      with req have "request_tags env inst args kwargs = (req, Inr ())" by simp
      from sync_delegate [OF pin False this] show ?thesis
        by (simp add: span_closes_simps none split: sum.splits)
    qed
  qed
qed

text \<open>Under the asynchronous adapter the same holds when the awaitable does not raise.\<close>

lemma async_span_closed_once:
  assumes "\<not> tracing_disabled inst"
      and "\<And>awaited e. afunc args kwargs = Inr awaited \<Longrightarrow> await awaited \<noteq> Inl e"
  shows "span_closes (events (get_perform_request_async env afunc inst args kwargs)) = 1"
proof -
  obtain pin where pin: "pin_of inst = Some pin" "enabled pin"
    using assms(1) traced_pin by blast
  show ?thesis
  proof (cases "dropped pin")
    case True
    show ?thesis
      using assms(2)
      by (auto simp: async_dropped [OF pin True] span_closes_simps split: sum.splits)
  next
    case False
    obtain req r where req: "request_tags env inst args kwargs = (req, r)"
      by (cases "request_tags env inst args kwargs")
    have none: "span_closes req = 0"
      using req by (rule span_closes_request_tags)
    show ?thesis
    proof (cases r)
      case (Inl e)
      with req have "request_tags env inst args kwargs = (req, Inl e)" by simp
      from async_raises [OF pin False this] show ?thesis
        by (simp add: span_closes_simps none)
    next
      case (Inr u)
      with req have "request_tags env inst args kwargs = (req, Inr ())" by simp
      from async_delegate [OF pin False this] show ?thesis
        using assms(2)
        by (auto simp: span_closes_simps none split: sum.splits)
    qed
  qed
qed

lemma tag_writes_Nil: "tag_writes key [] = []"
  by (simp add: tag_writes_def)

lemma tag_writes_Cons: "tag_writes key (ev # evs) = tag_value key ev @ tag_writes key evs"
  by (simp add: tag_writes_def)

lemma error_writes_Nil: "error_writes [] = []"
  by (simp add: error_writes_def)

lemma error_writes_Cons: "error_writes (ev # evs) = error_value ev @ error_writes evs"
  by (simp add: error_writes_def)

lemma open_event_status: "is_open_event ev \<Longrightarrow> tag_value STATUS_CODE ev = []"
  by (cases ev) auto

lemma request_event_status: "is_request_event ev \<Longrightarrow> tag_value STATUS_CODE ev = []"
  by (cases ev) auto

lemma status_open_span: "tag_writes STATUS_CODE (open_span env pin) = []"
  by (rule tag_writes_none [OF open_span_events]) (simp add: open_event_status)

lemma status_request_tags:
  "request_tags env inst args kwargs = (req, r) \<Longrightarrow> tag_writes STATUS_CODE req = []"
  using tag_writes_none [OF request_tags_events [of env inst args kwargs], of STATUS_CODE]
  by (simp add: request_event_status)

lemma error_open_span: "error_writes (open_span env pin) = []"
  by (rule error_writes_none [OF open_span_events]) (simp add: open_event_kind)

lemma error_request_tags:
  "request_tags env inst args kwargs = (req, r) \<Longrightarrow> error_writes req = []"
  using error_writes_none [OF request_tags_events, of env inst args kwargs]
  by (simp add: request_event_kind)

lemma took_metric_no_error: "took_metric env data = (evs, r) \<Longrightarrow> error_writes evs = []"
  by (auto simp: took_metric_def error_writes_Cons error_writes_Nil
           split: sum.splits if_splits)

lemma error_response_tags: "error_writes (fst (response_tags env v)) = []"
  unfolding response_tags_def
  by (auto simp: error_writes_append error_writes_Cons error_writes_Nil
           split: sum.splits prod.splits dest: took_metric_no_error)

text \<open>
  Under the synchronous adapter, in a fully instrumented call whose request stage
  completes: a transport error raised by the underlying call is tagged with its status
  code, or 500 when it has none, the error flag is set to 1 and the same error is raised;
  no other outcome sets the error flag.
\<close>

lemma sync_error_tagging:
  assumes "fully_instrumented inst"
      and "snd (request_tags env inst args kwargs) = Inr ()"
  shows "(func args kwargs = Inl (TransportError status_code) \<longrightarrow>
           outcome (get_perform_request env func inst args kwargs)
             = Inl (TransportError status_code)
           \<and> tag_writes STATUS_CODE (events (get_perform_request env func inst args kwargs))
             = [case status_code of None \<Rightarrow> PInt 500 | Some code \<Rightarrow> code]
           \<and> error_writes (events (get_perform_request env func inst args kwargs)) = [1])
       \<and> ((\<forall>code. func args kwargs \<noteq> Inl (TransportError code)) \<longrightarrow>
           error_writes (events (get_perform_request env func inst args kwargs)) = [])"
proof -
  obtain pin where pin: "pin_of inst = Some pin" "enabled pin" "\<not> dropped pin"
    using assms(1) fully_instrumented_pin by blast
  obtain req where req: "request_tags env inst args kwargs = (req, Inr ())"
    using assms(2) by (cases "request_tags env inst args kwargs") auto
  note quiet = status_open_span error_open_span status_request_tags [OF req]
    error_request_tags [OF req]
  have other: "error_writes (error_tags e) = []" if "\<forall>code. e \<noteq> TransportError code" for e
    using that by (cases e) (simp_all add: error_writes_Nil)
  show ?thesis
    by (auto simp: sync_delegate [OF pin req] quiet tag_writes_append tag_writes_Cons
          tag_writes_Nil error_writes_append error_writes_Cons error_writes_Nil
          error_response_tags other
          split: sum.splits)
qed

subsection \<open>The asynchronous adapter on a failing call\<close>

text \<open>
  Claim C2 holds under the synchronous adapter and fails under the asynchronous one.
  There the awaitable is awaited by the adapter (line 261), outside the generator: a
  transport error raised by it never reaches the handler of lines 207 to 210. On a
  traced GET whose awaitable raises a transport error of status 404 the error is
  raised to the caller, but no status code is tagged and the routine does not set the
  error flag, not even when the runtime later closes the abandoned generator; the same
  call under the synchronous adapter tags 404 and sets the flag to 1. (What the span's
  own exit handler does with the exception it is handed belongs to the tracer.)
\<close>

theorem async_transport_error_not_tagged:
  "outcome (get_perform_request_async example_env async_404 example_instance example_args
      example_kwargs) = Inl (TransportError (Some (PInt 404)))
   \<and> tag_writes STATUS_CODE (events (get_perform_request_async example_env async_404
        example_instance example_args example_kwargs)) = []
   \<and> error_writes (events (get_perform_request_async example_env async_404
        example_instance example_args example_kwargs)) = []
   \<and> suspended (get_perform_request_async example_env async_404 example_instance
        example_args example_kwargs) = Some AtDelegate
   \<and> tag_writes STATUS_CODE (coro_close AtDelegate) = []
   \<and> error_writes (coro_close AtDelegate) = []
   \<and> tag_writes STATUS_CODE (events (get_perform_request example_env func_404
        example_instance example_args example_kwargs)) = [PInt 404]
   \<and> error_writes (events (get_perform_request example_env func_404
        example_instance example_args example_kwargs)) = [1]"
  by (simp add: example_async_404 example_sync_404 tag_writes_def error_writes_def)

text \<open>
  Claim C3 holds under the synchronous adapter and fails under the asynchronous one,
  by the same defect. When the awaitable raises, the adapter is left at line 261 with
  the generator still suspended inside the \<open>with\<close> block: the span has been opened
  and, when the call exits, has not been closed. It is closed only if and when the
  runtime disposes of the generator. The same call under the synchronous adapter
  closes the span once.
\<close>

theorem async_failure_leaves_span_open:
  "spans_opened (events (get_perform_request_async example_env async_404 example_instance
      example_args example_kwargs)) = 1
   \<and> span_closes (events (get_perform_request_async example_env async_404 example_instance
        example_args example_kwargs)) = 0
   \<and> suspended (get_perform_request_async example_env async_404 example_instance
        example_args example_kwargs) = Some AtDelegate
   \<and> span_closes (events (get_perform_request example_env func_404 example_instance
        example_args example_kwargs)) = 1"
  by (simp add: example_async_404 example_sync_404 spans_opened_def span_closes_def)

section \<open>Tags written by a fully instrumented call\<close>

lemma tag_str_writes_Nil: "tag_str_writes key [] = []"
  by (simp add: tag_str_writes_def)

lemma tag_str_writes_Cons:
  "tag_str_writes key (ev # evs) = tag_str_value key ev @ tag_str_writes key evs"
  by (simp add: tag_str_writes_def)

lemma open_event_tag_str:
  "is_open_event ev \<Longrightarrow> key \<noteq> COMPONENT \<Longrightarrow> key \<noteq> SPAN_KIND \<Longrightarrow> tag_str_value key ev = []"
  by (cases ev) auto

lemma tag_str_writes_open_span:
  "key \<noteq> COMPONENT \<Longrightarrow> key \<noteq> SPAN_KIND \<Longrightarrow> tag_str_writes key (open_span env pin) = []"
  by (rule tag_str_writes_none [OF open_span_events]) (simp add: open_event_tag_str)

lemma tag_str_writes_error_tags: "tag_str_writes key (error_tags e) = []"
  by (rule tag_str_writes_none [OF error_tags_events]) (simp add: outcome_event_kind)

lemma tag_str_writes_response_tags: "tag_str_writes key (fst (response_tags env v)) = []"
  by (rule tag_str_writes_none [OF response_tags_events]) (simp add: outcome_event_kind)

lemma sync_full_tag_str_writes:
  assumes "fully_instrumented inst" "key \<noteq> COMPONENT" "key \<noteq> SPAN_KIND"
  shows "tag_str_writes key (events (get_perform_request env func inst args kwargs))
         = tag_str_writes key (fst (request_tags env inst args kwargs))"
proof -
  obtain pin where pin: "pin_of inst = Some pin" "enabled pin" "\<not> dropped pin"
    using assms(1) fully_instrumented_pin by blast
  obtain req r where req: "request_tags env inst args kwargs = (req, r)"
    by (cases "request_tags env inst args kwargs")
  show ?thesis
  proof (cases r)
    case (Inl e)
    with req have "request_tags env inst args kwargs = (req, Inl e)" by simp
    from sync_raises [OF pin this] show ?thesis
      using assms(2,3) req
      by (simp add: tag_str_writes_append tag_str_writes_open_span tag_str_writes_Cons
            tag_str_writes_Nil)
  next
    case (Inr u)
    with req have "request_tags env inst args kwargs = (req, Inr ())" by simp
    from sync_delegate [OF pin this] show ?thesis
      using assms(2,3) req
      by (simp add: tag_str_writes_append tag_str_writes_open_span tag_str_writes_Cons
            tag_str_writes_Nil tag_str_writes_error_tags tag_str_writes_response_tags
            split: sum.splits)
  qed
qed

lemma async_full_tag_str_writes:
  assumes "fully_instrumented inst" "key \<noteq> COMPONENT" "key \<noteq> SPAN_KIND"
  shows "tag_str_writes key (events (get_perform_request_async env func inst args kwargs))
         = tag_str_writes key (fst (request_tags env inst args kwargs))"
proof -
  obtain pin where pin: "pin_of inst = Some pin" "enabled pin" "\<not> dropped pin"
    using assms(1) fully_instrumented_pin by blast
  obtain req r where req: "request_tags env inst args kwargs = (req, r)"
    by (cases "request_tags env inst args kwargs")
  show ?thesis
  proof (cases r)
    case (Inl e)
    with req have "request_tags env inst args kwargs = (req, Inl e)" by simp
    from async_raises [OF pin this] show ?thesis
      using assms(2,3) req
      by (simp add: tag_str_writes_append tag_str_writes_open_span tag_str_writes_Cons
            tag_str_writes_Nil)
  next
    case (Inr u)
    with req have "request_tags env inst args kwargs = (req, Inr ())" by simp
    from async_delegate [OF pin this] show ?thesis
      using assms(2,3) req
      by (simp add: tag_str_writes_append tag_str_writes_open_span tag_str_writes_Cons
            tag_str_writes_Nil tag_str_writes_error_tags tag_str_writes_response_tags
            split: sum.splits)
  qed
qed

lemma tag_str_writes_target_host:
  "key \<noteq> TARGET_HOST \<Longrightarrow> tag_str_writes key (target_host_tags env connections) = []"
  by (induction connections) (simp_all add: tag_str_writes_Cons tag_str_writes_Nil)

lemma tag_str_writes_body_tags:
  "body_tags env inst method body = (evs, r) \<Longrightarrow> key \<noteq> BODY \<Longrightarrow> tag_str_writes key evs = []"
  by (auto simp: body_tags_def tag_str_writes_Cons tag_str_writes_Nil
           split: sum.splits if_splits)

lemma body_tags_ok:
  "body_tags env inst method body = (evs, Inr ()) \<Longrightarrow>
   (if method = PStr ''GET'' \<or> method = PStr ''POST''
    then \<exists>ser_body. serialize_body inst body = Inr ser_body
           \<and> evs = [SetTagStr BODY (PStr (body_tag env ser_body))]
    else evs = [])"
  by (auto simp: body_tags_def split: sum.splits if_splits)

text \<open>The request stage, once the arguments are unpacked and the target parsed.\<close>

lemma request_tags_unpacked:
  assumes "url_and_params env target (kwargs_get kwargs ''params'') = Inr (url, enc)"
  shows "request_tags env inst [method, target] kwargs =
     (case get_connections inst of
        Inl e \<Rightarrow>
          ([SetTagStr METHOD method, SetTagStr URL (PStr url), SetTagStr PARAMS (PStr enc)],
           Inl e)
      | Inr connections \<Rightarrow>
          ([SetTagStr METHOD method, SetTagStr URL (PStr url), SetTagStr PARAMS (PStr enc)]
           @ target_host_tags env connections
           @ (if trace_query_string env then [SetTagStr QUERY_STRING (PStr enc)] else [])
           @ fst (body_tags env inst method (kwargs_get kwargs ''body''))
           @ (case snd (body_tags env inst method (kwargs_get kwargs ''body'')) of
                Inl e \<Rightarrow> []
              | Inr u \<Rightarrow>
                  [SetTag ANALYTICS_SAMPLE_RATE_KEY (get_analytics_sample_rate env),
                   Quantize]),
           snd (body_tags env inst method (kwargs_get kwargs ''body''))))"
proof -
  obtain evs r where bt: "body_tags env inst method (kwargs_get kwargs ''body'') = (evs, r)"
    by (cases "body_tags env inst method (kwargs_get kwargs ''body'')")
  show ?thesis
    using assms bt
    by (cases "get_connections inst") (simp_all add: request_tags_def)
qed

lemma request_tags_url_params:
  assumes "url_and_params env target (kwargs_get kwargs ''params'') = Inr (url, enc)"
  shows "tag_str_writes URL (fst (request_tags env inst [method, target] kwargs)) = [PStr url]
       \<and> tag_str_writes PARAMS (fst (request_tags env inst [method, target] kwargs))
           = [PStr enc]"
proof -
  obtain evs r where bt: "body_tags env inst method (kwargs_get kwargs ''body'') = (evs, r)"
    by (cases "body_tags env inst method (kwargs_get kwargs ''body'')")
  have body: "tag_str_writes URL evs = []" "tag_str_writes PARAMS evs = []"
    using tag_str_writes_body_tags [OF bt] by simp_all
  show ?thesis
    unfolding request_tags_unpacked [OF assms]
    using body bt
    by (simp add: tag_str_writes_append tag_str_writes_Cons tag_str_writes_Nil
          tag_str_writes_target_host split: sum.splits)
qed

lemma request_tags_body:
  assumes "request_tags env inst [method, target] kwargs = (req, Inr ())"
  shows "tag_str_writes BODY req =
     (if method = PStr ''GET'' \<or> method = PStr ''POST''
      then (case serialize_body inst (kwargs_get kwargs ''body'') of
              Inl e \<Rightarrow> []
            | Inr ser_body \<Rightarrow> [PStr (body_tag env ser_body)])
      else [])
     \<and> (method = PStr ''GET'' \<or> method = PStr ''POST''
          \<longrightarrow> (\<exists>ser_body. serialize_body inst (kwargs_get kwargs ''body'') = Inr ser_body))"
proof -
  obtain url enc where up:
    "url_and_params env target (kwargs_get kwargs ''params'') = Inr (url, enc)"
    using assms by (auto simp: request_tags_def split: sum.splits)
  obtain connections where conn: "get_connections inst = Inr connections"
    using assms unfolding request_tags_unpacked [OF up] by (auto split: sum.splits)
  obtain evs where bt: "body_tags env inst method (kwargs_get kwargs ''body'') = (evs, Inr ())"
    using assms unfolding request_tags_unpacked [OF up]
    by (cases "body_tags env inst method (kwargs_get kwargs ''body'')")
       (auto simp: conn)
  have req: "req = [SetTagStr METHOD method, SetTagStr URL (PStr url), SetTagStr PARAMS (PStr enc)]
           @ target_host_tags env connections
           @ (if trace_query_string env then [SetTagStr QUERY_STRING (PStr enc)] else [])
           @ evs
           @ [SetTag ANALYTICS_SAMPLE_RATE_KEY (get_analytics_sample_rate env), Quantize]"
    using assms unfolding request_tags_unpacked [OF up] by (simp add: conn bt)
  have "tag_str_writes BODY req = tag_str_writes BODY evs"
    unfolding req
    by (simp add: tag_str_writes_append tag_str_writes_Cons tag_str_writes_Nil
          tag_str_writes_target_host)
  then show ?thesis
    using body_tags_ok [OF bt]
    by (auto simp: tag_str_writes_Cons tag_str_writes_Nil split: if_splits)
qed

section \<open>Body-size policy and query parameters\<close>

lemma body_placeholder_contains:
  "sublist (str_nat len) (body_placeholder len limit)
   \<and> sublist (str_nat limit) (body_placeholder len limit)"
proof -
  have "body_placeholder len limit
        = ''<body size '' @ str_nat len @ ('' exceeds limit of '' @ str_nat limit @ ''>'')"
    by (simp add: body_placeholder_def)
  then have first: "sublist (str_nat len) (body_placeholder len limit)"
    unfolding sublist_def by blast
  have "body_placeholder len limit
        = (''<body size '' @ str_nat len @ '' exceeds limit of '') @ str_nat limit @ ''>''"
    by (simp add: body_placeholder_def)
  then have second: "sublist (str_nat limit) (body_placeholder len limit)"
    unfolding sublist_def by blast
  from first second show ?thesis ..
qed

text \<open>
  Claim C4. In a fully instrumented call, under either adapter, whose request stage
  completes: when the method is GET or POST the body is serialized and the body tag is
  written once, with the serialized body when its length is at most the cap and with
  the placeholder otherwise; for any other method the body tag is not written. The
  placeholder contains the decimal digits of the length and of the cap.
\<close>

theorem body_size_policy:
  assumes "fully_instrumented inst"
      and "snd (request_tags env inst [method, target] kwargs) = Inr ()"
  shows "(method = PStr ''GET'' \<or> method = PStr ''POST'' \<longrightarrow>
           (\<exists>ser_body. serialize_body inst (kwargs_get kwargs ''body'') = Inr ser_body
             \<and> tag_str_writes BODY
                 (events (get_perform_request env func inst [method, target] kwargs))
               = [PStr (if length ser_body \<le> MAX_SPAN_META_VALUE_LEN env then ser_body
                        else body_placeholder (length ser_body)
                               (MAX_SPAN_META_VALUE_LEN env))]
             \<and> tag_str_writes BODY
                 (events (get_perform_request_async env afunc inst [method, target] kwargs))
               = [PStr (if length ser_body \<le> MAX_SPAN_META_VALUE_LEN env then ser_body
                        else body_placeholder (length ser_body)
                               (MAX_SPAN_META_VALUE_LEN env))]))
       \<and> (method \<noteq> PStr ''GET'' \<and> method \<noteq> PStr ''POST'' \<longrightarrow>
            tag_str_writes BODY
              (events (get_perform_request env func inst [method, target] kwargs)) = []
            \<and> tag_str_writes BODY
              (events (get_perform_request_async env afunc inst [method, target] kwargs))
              = [])
       \<and> sublist (str_nat len) (body_placeholder len limit)
       \<and> sublist (str_nat limit) (body_placeholder len limit)"
proof -
  obtain req where req: "request_tags env inst [method, target] kwargs = (req, Inr ())"
    using assms(2) by (cases "request_tags env inst [method, target] kwargs") auto
  have sync: "tag_str_writes BODY
      (events (get_perform_request env func inst [method, target] kwargs))
      = tag_str_writes BODY req"
    using sync_full_tag_str_writes [OF assms(1), of BODY env func "[method, target]" kwargs]
    by (simp add: req)
  have async: "tag_str_writes BODY
      (events (get_perform_request_async env afunc inst [method, target] kwargs))
      = tag_str_writes BODY req"
    using async_full_tag_str_writes [OF assms(1), of BODY env afunc "[method, target]" kwargs]
    by (simp add: req)
  have body: "tag_str_writes BODY req =
     (if method = PStr ''GET'' \<or> method = PStr ''POST''
      then (case serialize_body inst (kwargs_get kwargs ''body'') of
              Inl e \<Rightarrow> []
            | Inr ser_body \<Rightarrow> [PStr (body_tag env ser_body)])
      else [])"
    and ser: "method = PStr ''GET'' \<or> method = PStr ''POST''
          \<longrightarrow> (\<exists>ser_body. serialize_body inst (kwargs_get kwargs ''body'') = Inr ser_body)"
    using request_tags_body [OF req] by simp_all
  have get_post: "method = PStr ''GET'' \<or> method = PStr ''POST'' \<longrightarrow>
       (\<exists>ser_body. serialize_body inst (kwargs_get kwargs ''body'') = Inr ser_body
          \<and> tag_str_writes BODY req = [PStr (body_tag env ser_body)])"
    using body ser by auto
  have other: "method \<noteq> PStr ''GET'' \<and> method \<noteq> PStr ''POST'' \<longrightarrow> tag_str_writes BODY req = []"
    using body by simp
  show ?thesis
    unfolding sync async
    using get_post other body_placeholder_contains [of len limit]
    by (simp add: body_tag_def)
qed

lemma str_nat_13: "str_nat (length ''0123456789abc'') = ''13''"
  by code_simp

lemma str_nat_10: "str_nat 10 = ''10''"
  by code_simp

lemma large_body_request_tags:
  "request_tags (example_env\<lparr>MAX_SPAN_META_VALUE_LEN := 10\<rparr>) example_instance
     [PStr ''POST'', PStr ''/my-index/_search''] [(''body'', PStr ''0123456789abc'')] =
     ([SetTagStr METHOD (PStr ''POST''), SetTagStr URL (PStr ''/my-index/_search''),
       SetTagStr PARAMS (PStr ''''), SetTagStr TARGET_HOST (PStr ''127.0.0.1''),
       SetTagStr BODY (PStr ''<body size 13 exceeds limit of 10>''),
       SetTag ANALYTICS_SAMPLE_RATE_KEY PNone, Quantize],
      Inr ())"
  by (simp add: request_tags_def example_env_def example_instance_def
        url_and_params_def kwargs_get_def get_connections_def
        body_tags_def serialize_body_def dumps_with_def body_tag_def body_placeholder_def
        str_nat_13 [simplified] str_nat_10)

lemma delete_request_tags:
  "request_tags example_env example_instance
     [PStr ''DELETE'', PStr ''/my-index''] [] =
     ([SetTagStr METHOD (PStr ''DELETE''), SetTagStr URL (PStr ''/my-index''),
       SetTagStr PARAMS (PStr ''''), SetTagStr TARGET_HOST (PStr ''127.0.0.1''),
       SetTag ANALYTICS_SAMPLE_RATE_KEY PNone, Quantize],
      Inr ())"
  by (simp add: request_tags_def example_env_def example_instance_def
        url_and_params_def kwargs_get_def get_connections_def body_tags_def)

theorem body_size_policy_witness:
  "fully_instrumented example_instance
   \<and> snd (request_tags (example_env\<lparr>MAX_SPAN_META_VALUE_LEN := 10\<rparr>) example_instance
        [PStr ''POST'', PStr ''/my-index/_search''] [(''body'', PStr ''0123456789abc'')])
      = Inr ()
   \<and> tag_str_writes BODY
        (events (get_perform_request (example_env\<lparr>MAX_SPAN_META_VALUE_LEN := 10\<rparr>) func_ok
           example_instance [PStr ''POST'', PStr ''/my-index/_search'']
           [(''body'', PStr ''0123456789abc'')]))
      = [PStr ''<body size 13 exceeds limit of 10>'']
   \<and> tag_str_writes BODY
        (events (get_perform_request_async example_env async_ok example_instance
           [PStr ''GET'', PStr ''/my-index/_search''] example_kwargs))
      = [PStr ''null'']
   \<and> tag_str_writes BODY
        (events (get_perform_request example_env func_ok example_instance
           [PStr ''DELETE'', PStr ''/my-index''] []))
      = []"
proof -
  let ?env10 = "example_env\<lparr>MAX_SPAN_META_VALUE_LEN := 10\<rparr>"
  have large: "snd (request_tags ?env10 example_instance
      [PStr ''POST'', PStr ''/my-index/_search''] [(''body'', PStr ''0123456789abc'')])
      = Inr ()"
    by (simp add: large_body_request_tags)
  have small: "snd (request_tags example_env example_instance
      [PStr ''GET'', PStr ''/my-index/_search''] example_kwargs) = Inr ()"
    using example_request_tags by (simp add: example_args_def)
  have delete: "snd (request_tags example_env example_instance
      [PStr ''DELETE'', PStr ''/my-index''] []) = Inr ()"
    by (simp add: delete_request_tags)
  have ser_large: "serialize_body example_instance
      (kwargs_get [(''body'', PStr ''0123456789abc'')] ''body'') = Inr ''0123456789abc''"
    by (simp add: serialize_body_def dumps_with_def example_instance_def kwargs_get_def)
  have ser_small: "serialize_body example_instance (kwargs_get example_kwargs ''body'')
      = Inr ''null''"
    by (simp add: serialize_body_def dumps_with_def example_instance_def kwargs_get_def
          example_kwargs_def)
  show ?thesis
    using example_fully_instrumented large
      body_size_policy [OF example_fully_instrumented large, of func_ok async_ok]
      body_size_policy [OF example_fully_instrumented small, of func_ok async_ok]
      body_size_policy [OF example_fully_instrumented delete, of func_ok async_ok]
    by (simp add: ser_large ser_small example_env_def body_placeholder_def
          str_nat_13 [simplified] str_nat_10)
qed

lemma url_and_params_eq:
  assumes "urlparse env target = Inr (parsed_path, parsed_query)"
      and "truthy params \<Longrightarrow> urlencode env params = Inr encoded"
  shows "url_and_params env target params =
           Inr (parsed_path, if truthy params then encoded else parsed_query)"
  using assms by (simp add: url_and_params_def)

text \<open>
  Claim C8. In a fully instrumented call, under either adapter, whose target parses:
  the params tag is written once, with the URL-encoding of the \<open>params\<close> keyword
  argument when that argument is given and not empty (line 156 tests its truth value),
  and with the query string of the target otherwise; the url tag is written once, with
  the path parsed from the target.
\<close>

theorem query_parameter_precedence:
  assumes "fully_instrumented inst"
      and "urlparse env target = Inr (parsed_path, parsed_query)"
      and "truthy (kwargs_get kwargs ''params'')
           \<Longrightarrow> urlencode env (kwargs_get kwargs ''params'') = Inr encoded"
  shows "tag_str_writes PARAMS
           (events (get_perform_request env func inst [method, target] kwargs))
         = [PStr (if truthy (kwargs_get kwargs ''params'') then encoded else parsed_query)]
       \<and> tag_str_writes URL
           (events (get_perform_request env func inst [method, target] kwargs))
         = [PStr parsed_path]
       \<and> tag_str_writes PARAMS
           (events (get_perform_request_async env afunc inst [method, target] kwargs))
         = [PStr (if truthy (kwargs_get kwargs ''params'') then encoded else parsed_query)]
       \<and> tag_str_writes URL
           (events (get_perform_request_async env afunc inst [method, target] kwargs))
         = [PStr parsed_path]"
proof -
  have up: "url_and_params env target (kwargs_get kwargs ''params'') =
      Inr (parsed_path,
           if truthy (kwargs_get kwargs ''params'') then encoded else parsed_query)"
    using assms(2,3) by (rule url_and_params_eq)
  show ?thesis
    using request_tags_url_params [OF up]
    by (simp add: sync_full_tag_str_writes [OF assms(1)]
          async_full_tag_str_writes [OF assms(1)])
qed

theorem query_parameter_precedence_witness:
  "fully_instrumented example_instance
   \<and> urlparse example_env (PStr ''/my-index/_search?size=1'')
       = Inr (''/my-index/_search'', ''size=1'')
   \<and> tag_str_writes PARAMS
        (events (get_perform_request example_env func_ok example_instance
           [PStr ''GET'', PStr ''/my-index/_search?size=1''] example_kwargs))
      = [PStr ''q=foo'']
   \<and> tag_str_writes PARAMS
        (events (get_perform_request_async example_env async_ok example_instance
           [PStr ''GET'', PStr ''/my-index/_search?size=1''] [(''params'', PDict [])]))
      = [PStr ''size=1'']
   \<and> tag_str_writes URL
        (events (get_perform_request example_env func_404 example_instance
           [PStr ''GET'', PStr ''/my-index/_search?size=1''] []))
      = [PStr ''/my-index/_search'']"
proof -
  have parse: "urlparse example_env (PStr ''/my-index/_search?size=1'')
      = Inr (''/my-index/_search'', ''size=1'')"
    by (simp add: example_env_def)
  have given: "truthy (kwargs_get example_kwargs ''params'')
      \<Longrightarrow> urlencode example_env (kwargs_get example_kwargs ''params'') = Inr ''q=foo''"
    by (simp add: example_env_def example_kwargs_def kwargs_get_def)
  have empty: "truthy (kwargs_get [(''params'', PDict [])] ''params'')
      \<Longrightarrow> urlencode example_env (kwargs_get [(''params'', PDict [])] ''params'') = Inr ''''"
    by (simp add: kwargs_get_def)
  have absent: "truthy (kwargs_get [] ''params'')
      \<Longrightarrow> urlencode example_env (kwargs_get [] ''params'') = Inr ''''"
    by (simp add: kwargs_get_def)
  show ?thesis
    using example_fully_instrumented parse
      query_parameter_precedence [OF example_fully_instrumented parse given,
        of func_ok "PStr ''GET''" async_ok]
      query_parameter_precedence [OF example_fully_instrumented parse empty,
        of func_ok "PStr ''GET''" async_ok]
      query_parameter_precedence [OF example_fully_instrumented parse absent,
        of func_404 "PStr ''GET''" async_ok]
    by (simp add: kwargs_get_def example_kwargs_def)
qed

section \<open>The sampling short-circuit\<close>

text \<open>
  Claim C5, as stated, fails, in two ways. The test of line 145 is
  \<open>sampling_priority <= 0\<close>, so a priority of 0, which is not negative, also skips
  the derivation of the request and response tags. And on the skipped path the
  underlying function is called inside the generator (line 146): a \<open>StopIteration\<close>
  it raises reaches the caller of the wrapper as a \<open>RuntimeError\<close>.
\<close>

theorem sampling_short_circuit_counterexample:
  "sampling_priority (example_pin\<lparr>sampling_priority := Some 0\<rparr>) = Some 0
   \<and> \<not> (0::int) < 0
   \<and> events (get_perform_request example_env func_ok
        (example_instance\<lparr>pin_of := Some (example_pin\<lparr>sampling_priority := Some 0\<rparr>)\<rparr>)
        example_args example_kwargs)
      = [Trace ''elasticsearch.query'' ''elasticsearch'' ''elasticsearch'',
         SetTagStr COMPONENT (PStr ''elasticsearch''), SetTagStr SPAN_KIND (PStr ''client''),
         SetTag SPAN_MEASURED_KEY PNone,
         Call example_args example_kwargs,
         Exit None]
   \<and> unwrapped func_stop example_args example_kwargs = Inl StopIteration
   \<and> outcome (get_perform_request example_env func_stop
        (example_instance\<lparr>pin_of := Some (example_pin\<lparr>sampling_priority := Some (- 1)\<rparr>)\<rparr>)
        example_args example_kwargs) = Inl RuntimeError"
proof -
  let ?pin = "example_pin\<lparr>sampling_priority := Some 0\<rparr>"
  let ?inst = "example_instance\<lparr>pin_of := Some ?pin\<rparr>"
  let ?neg = "example_pin\<lparr>sampling_priority := Some (- 1)\<rparr>"
  let ?ninst = "example_instance\<lparr>pin_of := Some ?neg\<rparr>"
  have pin: "pin_of ?inst = Some ?pin" "enabled ?pin" "dropped ?pin"
    by (simp_all add: example_pin_def dropped_def)
  have neg: "pin_of ?ninst = Some ?neg" "enabled ?neg" "dropped ?neg"
    by (simp_all add: example_pin_def dropped_def)
  have zero: "events (get_perform_request example_env func_ok ?inst example_args
        example_kwargs)
      = [Trace ''elasticsearch.query'' ''elasticsearch'' ''elasticsearch'',
         SetTagStr COMPONENT (PStr ''elasticsearch''), SetTagStr SPAN_KIND (PStr ''client''),
         SetTag SPAN_MEASURED_KEY PNone,
         Call example_args example_kwargs,
         Exit None]"
    by (simp add: sync_dropped [OF pin] open_span_def example_env_def func_ok_def)
       (simp add: example_pin_def)
  have stop: "outcome (get_perform_request example_env func_stop ?ninst example_args
        example_kwargs) = Inl RuntimeError"
    by (simp add: sync_dropped [OF neg] func_stop_def)
  show ?thesis
    using zero stop by (simp add: unwrapped_def func_stop_def)
qed

text \<open>
  Claim C5, amended. With tracing enabled, the derivation of the request and response
  tags is skipped exactly when a sampling priority has been assigned to the span's
  context and is not positive. When it is skipped the span is still opened, the
  underlying function is called exactly once with the arguments given, and the wrapped
  call returns what the unwrapped call returns and raises what it raises whenever that
  is not a \<open>StopIteration\<close> raised by the underlying function itself; the span is
  closed under the synchronous adapter, and under the asynchronous adapter when the
  awaited call returns. When it is not skipped, the derivation of the request tags
  follows the opening of the span.
\<close>

theorem sampling_short_circuit:
  assumes "pin_of inst = Some pin" and "enabled pin"
  shows "(dropped pin \<longleftrightarrow> (\<exists>priority. sampling_priority pin = Some priority \<and> priority \<le> 0))
    \<and> (dropped pin \<longrightarrow>
         (func args kwargs \<noteq> Inl StopIteration \<longrightarrow>
            outcome (get_perform_request env func inst args kwargs)
              = unwrapped func args kwargs)
         \<and> events (get_perform_request env func inst args kwargs)
             = open_span env pin
               @ [Call args kwargs,
                  Exit (case func args kwargs of Inl e \<Rightarrow> Some e | Inr v \<Rightarrow> None)]
         \<and> (afunc args kwargs \<noteq> Inl StopIteration \<longrightarrow>
              outcome (get_perform_request_async env afunc inst args kwargs)
                = unwrapped_async afunc args kwargs)
         \<and> (\<exists>rest. events (get_perform_request_async env afunc inst args kwargs)
                      = open_span env pin @ Call args kwargs # rest
                    \<and> list_all (\<lambda>ev. ev = Await \<or> is_exit ev) rest)
         \<and> (\<forall>awaited v. afunc args kwargs = Inr awaited \<and> await awaited = Inr v \<longrightarrow>
               events (get_perform_request_async env afunc inst args kwargs)
                 = open_span env pin @ [Call args kwargs, Await, Exit None]))
    \<and> (\<not> dropped pin \<longrightarrow>
         prefix (open_span env pin @ fst (request_tags env inst args kwargs))
           (events (get_perform_request env func inst args kwargs))
         \<and> prefix (open_span env pin @ fst (request_tags env inst args kwargs))
           (events (get_perform_request_async env afunc inst args kwargs)))"
proof -
  have iff: "dropped pin \<longleftrightarrow> (\<exists>priority. sampling_priority pin = Some priority \<and> priority \<le> 0)"
    by (cases "sampling_priority pin") (simp_all add: dropped_def)
  have skip: "(func args kwargs \<noteq> Inl StopIteration \<longrightarrow>
            outcome (get_perform_request env func inst args kwargs)
              = unwrapped func args kwargs)
         \<and> events (get_perform_request env func inst args kwargs)
             = open_span env pin
               @ [Call args kwargs,
                  Exit (case func args kwargs of Inl e \<Rightarrow> Some e | Inr v \<Rightarrow> None)]
         \<and> (afunc args kwargs \<noteq> Inl StopIteration \<longrightarrow>
              outcome (get_perform_request_async env afunc inst args kwargs)
                = unwrapped_async afunc args kwargs)
         \<and> (\<exists>rest. events (get_perform_request_async env afunc inst args kwargs)
                      = open_span env pin @ Call args kwargs # rest
                    \<and> list_all (\<lambda>ev. ev = Await \<or> is_exit ev) rest)
         \<and> (\<forall>awaited v. afunc args kwargs = Inr awaited \<and> await awaited = Inr v \<longrightarrow>
               events (get_perform_request_async env afunc inst args kwargs)
                 = open_span env pin @ [Call args kwargs, Await, Exit None])"
    if d: "dropped pin"
  proof -
    have sync: "(func args kwargs \<noteq> Inl StopIteration \<longrightarrow>
            outcome (get_perform_request env func inst args kwargs)
              = unwrapped func args kwargs)
         \<and> events (get_perform_request env func inst args kwargs)
             = open_span env pin
               @ [Call args kwargs,
                  Exit (case func args kwargs of Inl e \<Rightarrow> Some e | Inr v \<Rightarrow> None)]"
      by (simp add: sync_dropped [OF assms d] unwrapped_def through_generator_id)
    have async_outcome: "afunc args kwargs \<noteq> Inl StopIteration \<longrightarrow>
              outcome (get_perform_request_async env afunc inst args kwargs)
                = unwrapped_async afunc args kwargs"
      using async_outcome_dropped [OF assms d, of afunc args kwargs env] by blast
    have async_events: "(\<exists>rest. events (get_perform_request_async env afunc inst args kwargs)
                      = open_span env pin @ Call args kwargs # rest
                    \<and> list_all (\<lambda>ev. ev = Await \<or> is_exit ev) rest)
         \<and> (\<forall>awaited v. afunc args kwargs = Inr awaited \<and> await awaited = Inr v \<longrightarrow>
               events (get_perform_request_async env afunc inst args kwargs)
                 = open_span env pin @ [Call args kwargs, Await, Exit None])"
      by (simp add: async_dropped [OF assms d] split: sum.splits)
    from sync async_outcome async_events show ?thesis by blast
  qed
  have run: "prefix (open_span env pin @ fst (request_tags env inst args kwargs))
           (events (get_perform_request env func inst args kwargs))
         \<and> prefix (open_span env pin @ fst (request_tags env inst args kwargs))
           (events (get_perform_request_async env afunc inst args kwargs))"
    if nd: "\<not> dropped pin"
  proof -
    obtain req r where req: "request_tags env inst args kwargs = (req, r)"
      by (cases "request_tags env inst args kwargs")
    show ?thesis
    proof (cases r)
      case (Inl e)
      with req have raises: "request_tags env inst args kwargs = (req, Inl e)" by simp
      show ?thesis
        by (simp add: sync_raises [OF assms nd raises] async_raises [OF assms nd raises] req)
    next
      case (Inr u)
      with req have ok: "request_tags env inst args kwargs = (req, Inr ())" by simp
      show ?thesis
        by (simp add: sync_delegate [OF assms nd ok] async_delegate [OF assms nd ok] req
              split: sum.splits)
    qed
  qed
  from iff skip run show ?thesis by blast
qed

theorem sampling_short_circuit_witness:
  "pin_of (example_instance\<lparr>pin_of := Some (example_pin\<lparr>sampling_priority := Some (- 1)\<rparr>)\<rparr>)
     = Some (example_pin\<lparr>sampling_priority := Some (- 1)\<rparr>)
   \<and> enabled (example_pin\<lparr>sampling_priority := Some (- 1)\<rparr>)
   \<and> dropped (example_pin\<lparr>sampling_priority := Some (- 1)\<rparr>)
   \<and> func_404 example_args example_kwargs \<noteq> Inl StopIteration
   \<and> async_ok example_args example_kwargs \<noteq> Inl StopIteration
   \<and> outcome (get_perform_request example_env func_404
        (example_instance\<lparr>pin_of := Some (example_pin\<lparr>sampling_priority := Some (- 1)\<rparr>)\<rparr>)
        example_args example_kwargs) = Inl (TransportError (Some (PInt 404)))
   \<and> events (get_perform_request example_env func_404
        (example_instance\<lparr>pin_of := Some (example_pin\<lparr>sampling_priority := Some (- 1)\<rparr>)\<rparr>)
        example_args example_kwargs)
      = open_span example_env (example_pin\<lparr>sampling_priority := Some (- 1)\<rparr>)
        @ [Call example_args example_kwargs, Exit (Some (TransportError (Some (PInt 404))))]
   \<and> outcome (get_perform_request_async example_env async_ok
        (example_instance\<lparr>pin_of := Some (example_pin\<lparr>sampling_priority := Some (- 1)\<rparr>)\<rparr>)
        example_args example_kwargs) = Inr example_response
   \<and> events (get_perform_request_async example_env async_ok
        (example_instance\<lparr>pin_of := Some (example_pin\<lparr>sampling_priority := Some (- 1)\<rparr>)\<rparr>)
        example_args example_kwargs)
      = open_span example_env (example_pin\<lparr>sampling_priority := Some (- 1)\<rparr>)
        @ [Call example_args example_kwargs, Await, Exit None]
   \<and> \<not> dropped example_pin
   \<and> prefix (open_span example_env example_pin
              @ fst (request_tags example_env example_instance example_args example_kwargs))
        (events (get_perform_request example_env func_ok example_instance example_args
           example_kwargs))"
proof -
  let ?pin = "example_pin\<lparr>sampling_priority := Some (- 1)\<rparr>"
  let ?inst = "example_instance\<lparr>pin_of := Some ?pin\<rparr>"
  have pin: "pin_of ?inst = Some ?pin" "enabled ?pin"
    by (simp_all add: example_pin_def)
  have d: "dropped ?pin"
    by (simp add: dropped_def)
  have aw: "async_ok example_args example_kwargs = Inr (Awaitable (Inr example_response))"
    "await (Awaitable (Inr example_response)) = Inr example_response"
    by (simp_all add: async_ok_def)
  have no_stop: "func_404 example_args example_kwargs \<noteq> Inl StopIteration"
    "async_ok example_args example_kwargs \<noteq> Inl StopIteration"
    by (simp_all add: func_404_def async_ok_def)
  show ?thesis
    using pin d aw no_stop example_pin_facts
      sampling_short_circuit [OF pin, of func_404 example_args example_kwargs example_env
        async_ok]
      sampling_short_circuit [OF example_pin_facts(1,2), of func_ok example_args
        example_kwargs example_env async_ok]
    by (simp add: unwrapped_def unwrapped_async_def func_404_def)
qed

section \<open>When the quantizer runs\<close>

text \<open>
  Claim C9, as stated, fails: \<open>quantize(span)\<close> is line 203, before the delegated
  call of line 206. In a traced GET that succeeds, the quantizer is not directly followed
  by the closing of the span, and the underlying call does not come before it: the call,
  the took metric and the status code all come after.
\<close>

theorem quantizer_ordering_counterexample:
  "\<not> quantize_then_exit (events (get_perform_request example_env func_ok example_instance
        example_args example_kwargs))
   \<and> \<not> call_before_quantize (events (get_perform_request example_env func_ok
        example_instance example_args example_kwargs))
   \<and> drop 10 (events (get_perform_request example_env func_ok example_instance
        example_args example_kwargs))
      = [Quantize, Call example_args example_kwargs, SetMetric TOOK 3,
         SetTag STATUS_CODE (PInt 200), Exit None]"
  by (simp add: example_sync_ok)

lemma unpack_args_ok: "unpack_args args = Inr (method, target) \<Longrightarrow> args = [method, target]"
  by (cases args rule: unpack_args.cases) simp_all

lemma target_host_tags_no_quantize: "Quantize \<notin> set (target_host_tags env connections)"
  by (induction connections) simp_all

lemma request_tags_complete:
  assumes "request_tags env inst args kwargs = (req, Inr ())"
  shows "\<exists>before. req = before
            @ [SetTag ANALYTICS_SAMPLE_RATE_KEY (get_analytics_sample_rate env), Quantize]
          \<and> Quantize \<notin> set before \<and> list_all is_request_event before"
proof -
  obtain m t where "unpack_args args = Inr (m, t)"
    using assms by (auto simp: request_tags_def split: sum.splits)
  then have args: "args = [m, t]"
    by (rule unpack_args_ok)
  obtain url enc where up:
    "url_and_params env t (kwargs_get kwargs ''params'') = Inr (url, enc)"
    using assms unfolding args by (auto simp: request_tags_def split: sum.splits)
  obtain connections where conn: "get_connections inst = Inr connections"
    using assms unfolding args request_tags_unpacked [OF up] by (auto split: sum.splits)
  obtain evs where bt: "body_tags env inst m (kwargs_get kwargs ''body'') = (evs, Inr ())"
    using assms unfolding args request_tags_unpacked [OF up]
    by (cases "body_tags env inst m (kwargs_get kwargs ''body'')")
       (auto simp: conn)
  let ?before = "[SetTagStr METHOD m, SetTagStr URL (PStr url), SetTagStr PARAMS (PStr enc)]
           @ target_host_tags env connections
           @ (if trace_query_string env then [SetTagStr QUERY_STRING (PStr enc)] else [])
           @ evs"
  have req: "req = ?before
           @ [SetTag ANALYTICS_SAMPLE_RATE_KEY (get_analytics_sample_rate env), Quantize]"
    using assms unfolding args request_tags_unpacked [OF up] by (simp add: conn bt)
  have evs: "Quantize \<notin> set evs"
    using body_tags_ok [OF bt] by (auto split: if_splits)
  have noq: "Quantize \<notin> set ?before"
    using evs by (simp add: target_host_tags_no_quantize)
  have kind: "list_all is_request_event ?before"
    using body_tags_events [OF bt] by (simp add: target_host_tags_events)
  from req noq kind show ?thesis by blast
qed

lemma open_span_no_quantize: "Quantize \<notin> set (open_span env pin)"
  by (simp add: open_span_def)

lemma outcome_events_no_quantize: "list_all is_outcome_event evs \<Longrightarrow> Quantize \<notin> set evs"
  by (induction evs) auto

lemma open_not_outcome: "is_open_event ev \<Longrightarrow> \<not> is_outcome_event ev"
  by (cases ev) auto

lemma request_not_outcome: "is_request_event ev \<Longrightarrow> \<not> is_outcome_event ev"
  by (cases ev) auto

lemma list_all_not_outcome:
  "list_all P evs \<Longrightarrow> (\<And>ev. P ev \<Longrightarrow> \<not> is_outcome_event ev)
     \<Longrightarrow> list_all (\<lambda>ev. \<not> is_outcome_event ev) evs"
  by (induction evs) simp_all

text \<open>
  Claim C9, amended. In a fully instrumented call whose request stage completes, under
  either adapter, the quantizer runs exactly once: after the span has been opened and
  the request tags and the analytics sample rate have been set, and directly before
  the underlying call is delegated. Nothing of the outcome (status code, took metric,
  error flag) has been recorded by then. Under the synchronous adapter, and under the
  asynchronous adapter when the underlying function raises at the call or the awaited
  call returns, what follows the call is what the outcome records and then the closing
  of the span.
\<close>

theorem quantizer_ordering:
  assumes "fully_instrumented inst"
      and "snd (request_tags env inst args kwargs) = Inr ()"
  shows "\<exists>pin before.
      pin_of inst = Some pin
      \<and> fst (request_tags env inst args kwargs)
          = before @ [SetTag ANALYTICS_SAMPLE_RATE_KEY (get_analytics_sample_rate env),
                      Quantize]
      \<and> list_all is_request_event before
      \<and> Quantize \<notin> set (open_span env pin) \<and> Quantize \<notin> set before
      \<and> list_all (\<lambda>ev. \<not> is_outcome_event ev)
           (open_span env pin @ before
            @ [SetTag ANALYTICS_SAMPLE_RATE_KEY (get_analytics_sample_rate env)])
      \<and> events (get_perform_request env func inst args kwargs)
          = open_span env pin @ before
            @ [SetTag ANALYTICS_SAMPLE_RATE_KEY (get_analytics_sample_rate env),
               Quantize, Call args kwargs]
            @ (case func args kwargs of
                 Inl e \<Rightarrow> error_tags e @ [Exit (Some e)]
               | Inr v \<Rightarrow> fst (response_tags env v) @ [Exit None])
      \<and> (\<forall>e. afunc args kwargs = Inl e \<longrightarrow>
            events (get_perform_request_async env afunc inst args kwargs)
              = open_span env pin @ before
                @ [SetTag ANALYTICS_SAMPLE_RATE_KEY (get_analytics_sample_rate env),
                   Quantize, Call args kwargs]
                @ error_tags e @ [Exit (Some e)])
      \<and> (\<forall>awaited v. afunc args kwargs = Inr awaited \<and> await awaited = Inr v \<longrightarrow>
            events (get_perform_request_async env afunc inst args kwargs)
              = open_span env pin @ before
                @ [SetTag ANALYTICS_SAMPLE_RATE_KEY (get_analytics_sample_rate env),
                   Quantize, Call args kwargs, Await]
                @ fst (response_tags env v) @ [Exit None])
      \<and> (\<exists>rest. events (get_perform_request_async env afunc inst args kwargs)
              = open_span env pin @ before
                @ [SetTag ANALYTICS_SAMPLE_RATE_KEY (get_analytics_sample_rate env),
                   Quantize, Call args kwargs]
                @ rest
            \<and> Quantize \<notin> set rest)
      \<and> (\<forall>e. list_all is_outcome_event (error_tags e) \<and> Quantize \<notin> set (error_tags e))
      \<and> (\<forall>v. list_all is_outcome_event (fst (response_tags env v))
               \<and> Quantize \<notin> set (fst (response_tags env v)))"
proof -
  obtain pin where pin: "pin_of inst = Some pin" "enabled pin" "\<not> dropped pin"
    using assms(1) fully_instrumented_pin by blast
  obtain req where req: "request_tags env inst args kwargs = (req, Inr ())"
    using assms(2) by (cases "request_tags env inst args kwargs") auto
  obtain before where before:
    "req = before @ [SetTag ANALYTICS_SAMPLE_RATE_KEY (get_analytics_sample_rate env), Quantize]"
    "Quantize \<notin> set before" "list_all is_request_event before"
    using request_tags_complete [OF req] by blast
  let ?rate = "SetTag ANALYTICS_SAMPLE_RATE_KEY (get_analytics_sample_rate env)"
  have stage: "fst (request_tags env inst args kwargs) = before @ [?rate, Quantize]"
    by (simp add: req before(1))
  have sync: "events (get_perform_request env func inst args kwargs)
        = open_span env pin @ before @ [?rate, Quantize, Call args kwargs]
          @ (case func args kwargs of
               Inl e \<Rightarrow> error_tags e @ [Exit (Some e)]
             | Inr v \<Rightarrow> fst (response_tags env v) @ [Exit None])"
    by (simp add: sync_delegate [OF pin req] before(1))
  have err_q: "Quantize \<notin> set (error_tags e)" for e
    using error_tags_events by (rule outcome_events_no_quantize)
  have resp_q: "Quantize \<notin> set (fst (response_tags env v))" for v
    using response_tags_events by (rule outcome_events_no_quantize)
  have raised: "\<forall>e. afunc args kwargs = Inl e \<longrightarrow>
      events (get_perform_request_async env afunc inst args kwargs)
        = open_span env pin @ before @ [?rate, Quantize, Call args kwargs]
          @ error_tags e @ [Exit (Some e)]"
    by (simp add: async_delegate [OF pin req] before(1))
  have returned: "\<forall>awaited v. afunc args kwargs = Inr awaited \<and> await awaited = Inr v \<longrightarrow>
      events (get_perform_request_async env afunc inst args kwargs)
        = open_span env pin @ before @ [?rate, Quantize, Call args kwargs, Await]
          @ fst (response_tags env v) @ [Exit None]"
    by (simp add: async_delegate [OF pin req] before(1))
  let ?arest = "case afunc args kwargs of
        Inl e \<Rightarrow> error_tags e @ [Exit (Some e)]
      | Inr awaited \<Rightarrow>
         (case await awaited of
            Inl e \<Rightarrow> [Await]
          | Inr v \<Rightarrow> Await # fst (response_tags env v) @ [Exit None])"
  have async: "events (get_perform_request_async env afunc inst args kwargs)
        = open_span env pin @ before @ [?rate, Quantize, Call args kwargs] @ ?arest"
    by (simp add: async_delegate [OF pin req] before(1) split: sum.splits)
  have arest_q: "Quantize \<notin> set ?arest"
    by (simp add: err_q resp_q split: sum.splits)
  have any: "\<exists>rest. events (get_perform_request_async env afunc inst args kwargs)
        = open_span env pin @ before @ [?rate, Quantize, Call args kwargs] @ rest
        \<and> Quantize \<notin> set rest"
    using async arest_q by blast
  have pre_kind: "list_all (\<lambda>ev. \<not> is_outcome_event ev) (open_span env pin @ before @ [?rate])"
    using list_all_not_outcome [OF open_span_events, of env pin]
          list_all_not_outcome [OF before(3)]
    by (simp add: open_not_outcome request_not_outcome)
  have kinds: "\<forall>e. list_all is_outcome_event (error_tags e) \<and> Quantize \<notin> set (error_tags e)"
    "\<forall>v. list_all is_outcome_event (fst (response_tags env v))
         \<and> Quantize \<notin> set (fst (response_tags env v))"
    by (simp_all add: error_tags_events response_tags_events err_q resp_q)
  from pin(1) stage before(2,3) open_span_no_quantize [of env pin] pre_kind sync raised
    returned any kinds
  show ?thesis by blast
qed

theorem quantizer_ordering_witness:
  "fully_instrumented example_instance
   \<and> snd (request_tags example_env example_instance example_args example_kwargs) = Inr ()
   \<and> async_ok example_args example_kwargs = Inr (Awaitable (Inr example_response))
   \<and> await (Awaitable (Inr example_response)) = Inr example_response
   \<and> events (get_perform_request example_env func_ok example_instance example_args
        example_kwargs)
      = open_span example_env example_pin
        @ [SetTagStr METHOD (PStr ''GET''), SetTagStr URL (PStr ''/my-index/_search''),
           SetTagStr PARAMS (PStr ''q=foo''), SetTagStr TARGET_HOST (PStr ''127.0.0.1''),
           SetTagStr BODY (PStr ''null'')]
        @ [SetTag ANALYTICS_SAMPLE_RATE_KEY PNone, Quantize,
           Call example_args example_kwargs]
        @ [SetMetric TOOK 3, SetTag STATUS_CODE (PInt 200), Exit None]
   \<and> events (get_perform_request_async example_env async_ok example_instance example_args
        example_kwargs)
      = open_span example_env example_pin
        @ [SetTagStr METHOD (PStr ''GET''), SetTagStr URL (PStr ''/my-index/_search''),
           SetTagStr PARAMS (PStr ''q=foo''), SetTagStr TARGET_HOST (PStr ''127.0.0.1''),
           SetTagStr BODY (PStr ''null'')]
        @ [SetTag ANALYTICS_SAMPLE_RATE_KEY PNone, Quantize,
           Call example_args example_kwargs, Await]
        @ [SetMetric TOOK 3, SetTag STATUS_CODE (PInt 200), Exit None]"
proof -
  have ok: "snd (request_tags example_env example_instance example_args example_kwargs)
      = Inr ()"
    by (simp add: example_request_tags)
  have aw: "async_ok example_args example_kwargs = Inr (Awaitable (Inr example_response))"
    "await (Awaitable (Inr example_response)) = Inr example_response"
    by (simp_all add: async_ok_def)
  have rate: "get_analytics_sample_rate example_env = PNone"
    by (simp add: example_env_def)
  obtain pin before where run:
    "pin_of example_instance = Some pin"
    "fst (request_tags example_env example_instance example_args example_kwargs)
       = before @ [SetTag ANALYTICS_SAMPLE_RATE_KEY (get_analytics_sample_rate example_env),
                   Quantize]"
    "events (get_perform_request example_env func_ok example_instance example_args
        example_kwargs)
       = open_span example_env pin @ before
         @ [SetTag ANALYTICS_SAMPLE_RATE_KEY (get_analytics_sample_rate example_env),
            Quantize, Call example_args example_kwargs]
         @ (case func_ok example_args example_kwargs of
              Inl e \<Rightarrow> error_tags e @ [Exit (Some e)]
            | Inr v \<Rightarrow> fst (response_tags example_env v) @ [Exit None])"
    "\<forall>awaited v. async_ok example_args example_kwargs = Inr awaited \<and> await awaited = Inr v
       \<longrightarrow> events (get_perform_request_async example_env async_ok example_instance
              example_args example_kwargs)
            = open_span example_env pin @ before
              @ [SetTag ANALYTICS_SAMPLE_RATE_KEY (get_analytics_sample_rate example_env),
                 Quantize, Call example_args example_kwargs, Await]
              @ fst (response_tags example_env v) @ [Exit None]"
    using quantizer_ordering [OF example_fully_instrumented ok, of func_ok async_ok]
    by blast
  have pin: "pin = example_pin"
    using run(1) by (simp add: example_instance_def)
  have before: "before = [SetTagStr METHOD (PStr ''GET''),
      SetTagStr URL (PStr ''/my-index/_search''), SetTagStr PARAMS (PStr ''q=foo''),
      SetTagStr TARGET_HOST (PStr ''127.0.0.1''), SetTagStr BODY (PStr ''null'')]"
    using run(2) by (simp add: example_request_tags rate)
  have async: "events (get_perform_request_async example_env async_ok example_instance
        example_args example_kwargs)
      = open_span example_env pin @ before
        @ [SetTag ANALYTICS_SAMPLE_RATE_KEY (get_analytics_sample_rate example_env),
           Quantize, Call example_args example_kwargs, Await]
        @ fst (response_tags example_env example_response) @ [Exit None]"
    using run(4) aw by blast
  show ?thesis
    using example_fully_instrumented ok aw run(3) async
    by (simp add: pin before rate func_ok_def example_response_tags)
qed

section \<open>Properties of patching\<close>

lemma patch_transport_patched: "patch_flag transport \<Longrightarrow> patch_transport transport = transport"
  by (simp add: patch_transport_def)

lemma patch_transport_unpatched:
  "\<not> patch_flag transport \<Longrightarrow>
   patch_transport transport =
     transport\<lparr>datadog_patch :=
                 (if Transport transport = None \<and> AsyncTransport transport = None
                  then datadog_patch transport else Some True),
               Transport :=
                 map_option (\<lambda>cls. pin_onto (wrap_function_wrapper cls SyncWrapper))
                   (Transport transport),
               AsyncTransport :=
                 map_option (\<lambda>cls. pin_onto (wrap_function_wrapper cls AsyncWrapper))
                   (AsyncTransport transport)\<rparr>"
  by (cases "Transport transport"; cases "AsyncTransport transport")
     (simp_all add: patch_transport_def Let_def)

lemma patch_transport_flag:
  "\<not> patch_flag transport \<Longrightarrow>
   patch_flag (patch_transport transport)
     = (Transport transport \<noteq> None \<or> AsyncTransport transport \<noteq> None)"
  by (simp add: patch_transport_unpatched) (simp add: patch_flag_def)

lemma patch_transport_absent:
  "\<not> patch_flag transport \<Longrightarrow> Transport transport = None \<Longrightarrow> AsyncTransport transport = None
     \<Longrightarrow> patch_transport transport = transport"
  by (simp add: patch_transport_unpatched)

lemma patch_transport_twice:
  "patch_transport (patch_transport transport) = patch_transport transport"
proof (cases "patch_flag transport")
  case True
  then show ?thesis by (simp add: patch_transport_patched)
next
  case False
  show ?thesis
  proof (cases "Transport transport = None \<and> AsyncTransport transport = None")
    case True
    with False show ?thesis by (simp add: patch_transport_absent)
  next
    case False
    with \<open>\<not> patch_flag transport\<close> have "patch_flag (patch_transport transport)"
      by (simp add: patch_transport_flag)
    then show ?thesis by (rule patch_transport_patched)
  qed
qed

lemma unpatch_transport_absent:
  "(Transport transport = None \<longrightarrow> Transport (unpatch_transport transport) = None)
   \<and> (AsyncTransport transport = None \<longrightarrow> AsyncTransport (unpatch_transport transport) = None)"
  by (cases "Transport transport"; cases "AsyncTransport transport")
     (simp_all add: unpatch_transport_def)

lemma wrapped_once:
  "perform_request (pin_onto (wrap_function_wrapper cls wrapper))
     = wrapper # perform_request cls"
  by (simp add: pin_onto_def wrap_function_wrapper_def)

text \<open>
  Claim C6. Applying the patch twice gives the state that applying it once gives. On a
  target whose flag is not set, a second application adds nothing: each class that is
  present has had exactly one wrapper put around its \<open>perform_request\<close>, and the
  flag is set exactly when a class is present. Removing the patch from a target whose
  flag is not set changes nothing. A class that is absent is skipped by both
  operations, which leave it absent and handle the other class as usual.
\<close>

theorem patch_idempotent:
  "patch_transport (patch_transport transport) = patch_transport transport
   \<and> (\<not> patch_flag transport \<longrightarrow>
        unpatch_transport transport = transport
        \<and> Transport (patch_transport (patch_transport transport))
            = map_option (\<lambda>cls. pin_onto (wrap_function_wrapper cls SyncWrapper))
                (Transport transport)
        \<and> AsyncTransport (patch_transport (patch_transport transport))
            = map_option (\<lambda>cls. pin_onto (wrap_function_wrapper cls AsyncWrapper))
                (AsyncTransport transport)
        \<and> patch_flag (patch_transport (patch_transport transport))
            = (Transport transport \<noteq> None \<or> AsyncTransport transport \<noteq> None))
   \<and> perform_request (pin_onto (wrap_function_wrapper cls wrapper))
        = wrapper # perform_request cls
   \<and> (Transport transport = None \<longrightarrow>
        Transport (patch_transport transport) = None
        \<and> Transport (unpatch_transport transport) = None)
   \<and> (AsyncTransport transport = None \<longrightarrow>
        AsyncTransport (patch_transport transport) = None
        \<and> AsyncTransport (unpatch_transport transport) = None)"
proof -
  have twice: "patch_transport (patch_transport transport) = patch_transport transport"
    by (rule patch_transport_twice)
  have unset: "unpatch_transport transport = transport
        \<and> Transport (patch_transport transport)
            = map_option (\<lambda>cls. pin_onto (wrap_function_wrapper cls SyncWrapper))
                (Transport transport)
        \<and> AsyncTransport (patch_transport transport)
            = map_option (\<lambda>cls. pin_onto (wrap_function_wrapper cls AsyncWrapper))
                (AsyncTransport transport)
        \<and> patch_flag (patch_transport transport)
            = (Transport transport \<noteq> None \<or> AsyncTransport transport \<noteq> None)"
    if "\<not> patch_flag transport"
    using that patch_transport_flag [OF that]
    by (simp add: unpatch_transport_def patch_transport_unpatched)
  have absent: "Transport transport = None \<longrightarrow> Transport (patch_transport transport) = None"
    "AsyncTransport transport = None \<longrightarrow> AsyncTransport (patch_transport transport) = None"
    by (cases "patch_flag transport";
        simp add: patch_transport_patched patch_transport_unpatched)+
  show ?thesis
    unfolding twice
    using unset absent unpatch_transport_absent [of transport] wrapped_once [of cls wrapper]
    by blast
qed

theorem patch_idempotent_witness:
  "\<not> patch_flag \<lparr>datadog_patch = None,
                  Transport = Some \<lparr>perform_request = [], pinned = False\<rparr>,
                  AsyncTransport = None\<rparr>
   \<and> patch_transport (patch_transport
        \<lparr>datadog_patch = None, Transport = Some \<lparr>perform_request = [], pinned = False\<rparr>,
         AsyncTransport = None\<rparr>)
      = \<lparr>datadog_patch = Some True,
         Transport = Some \<lparr>perform_request = [SyncWrapper], pinned = True\<rparr>,
         AsyncTransport = None\<rparr>
   \<and> unpatch_transport
        \<lparr>datadog_patch = None, Transport = Some \<lparr>perform_request = [], pinned = False\<rparr>,
         AsyncTransport = None\<rparr>
      = \<lparr>datadog_patch = None, Transport = Some \<lparr>perform_request = [], pinned = False\<rparr>,
         AsyncTransport = None\<rparr>
   \<and> AsyncTransport (unpatch_transport
        \<lparr>datadog_patch = Some True,
         Transport = Some \<lparr>perform_request = [SyncWrapper], pinned = True\<rparr>,
         AsyncTransport = None\<rparr>) = None"
proof -
  let ?t = "\<lparr>datadog_patch = None,
              Transport = Some \<lparr>perform_request = [], pinned = False\<rparr>,
              AsyncTransport = None\<rparr>"
  let ?p = "\<lparr>datadog_patch = Some True,
              Transport = Some \<lparr>perform_request = [SyncWrapper], pinned = True\<rparr>,
              AsyncTransport = None\<rparr>"
  have unset: "\<not> patch_flag ?t"
    by (simp add: patch_flag_def)
  have once: "patch_transport ?t = ?p"
    by (simp add: patch_transport_def patch_flag_def pin_onto_def wrap_function_wrapper_def)
  have twice: "patch_transport (patch_transport ?t) = ?p"
    using patch_idempotent [of ?t] once by simp
  have same: "unpatch_transport ?t = ?t"
    using patch_idempotent [of ?t] unset by blast
  have absent: "AsyncTransport (unpatch_transport ?p) = None"
    using patch_idempotent [of ?p] by simp
  from unset twice same absent show ?thesis by simp
qed

end
